theory Spec2Isabelle
  imports Complex_Main "HOL-Library.Word" "HOL-Library.AList"
begin

unbundle bit_operations_syntax

section \<open>Response cache of the Claude automation script\<close>

text \<open>
  The development embeds the response cache of
  \<^verbatim>\<open>wing/agencies/core-agency/anthropic-s2do-governance.py\<close>: the key derivation
  \<^verbatim>\<open>CacheManager._generate_cache_key\<close>, the two-tier lookup \<^verbatim>\<open>CacheManager.get\<close>, the
  write-through \<^verbatim>\<open>CacheManager.set\<close>, the persistent memory of
  \<^verbatim>\<open>PersistentMemoryManager\<close> and the request pipeline
  \<^verbatim>\<open>ClaudeAutomation.process_data_with_claude\<close>. The \<^verbatim>\<open>CacheManager\<close> of
  \<^verbatim>\<open>enhanced-openai-automation.py\<close> has the same text up to the logger it writes to.
\<close>

subsection \<open>Python strings, UTF-8 and exceptions\<close>

text \<open>
  A Python \<^verbatim>\<open>str\<close> is a sequence of code points, so a lone surrogate such as
  \<^verbatim>\<open>"\ud800"\<close> is a value of the type. \<^verbatim>\<open>str.encode()\<close> encodes to UTF-8 with the
  strict error handler and raises \<^verbatim>\<open>UnicodeEncodeError\<close> on a surrogate code point.
\<close>

type_synonym byte = "8 word"
type_synonym pystr = "nat list"

text \<open>
  The exceptions the modelled code can meet. \<open>FirebaseError\<close> stands for any exception
  raised by a call that reaches Firestore, \<open>AttributeError\<close> is raised by the call of a
  method that an object does not have, \<open>ApiError\<close> stands for any exception raised by the
  call to the Anthropic client. \<open>InvalidPayload\<close> is the error named by the
  specification; no statement of the source raises it.
\<close>

datatype exn = UnicodeEncodeError | KeyError | AttributeError | FirebaseError | RuntimeError
  | ApiError | InvalidPayload

definition ascii :: "string \<Rightarrow> pystr" where
  "ascii s = map of_char s"

definition surrogate :: "nat \<Rightarrow> bool" where
  "surrogate c \<longleftrightarrow> 0xD800 \<le> c \<and> c \<le> 0xDFFF"

definition utf8_char :: "nat \<Rightarrow> exn + byte list" where
  "utf8_char c =
     (if c < 0x80 then Inr [of_nat c]
      else if c < 0x800 then Inr [of_nat (0xC0 + c div 0x40), of_nat (0x80 + c mod 0x40)]
      else if surrogate c then Inl UnicodeEncodeError
      else if c < 0x10000 then
        Inr [of_nat (0xE0 + c div 0x1000), of_nat (0x80 + (c div 0x40) mod 0x40),
             of_nat (0x80 + c mod 0x40)]
      else
        Inr [of_nat (0xF0 + c div 0x40000), of_nat (0x80 + (c div 0x1000) mod 0x40),
             of_nat (0x80 + (c div 0x40) mod 0x40), of_nat (0x80 + c mod 0x40)])"

fun encode :: "pystr \<Rightarrow> exn + byte list" where
  "encode [] = Inr []"
| "encode (c # cs) =
     (case utf8_char c of
        Inl e \<Rightarrow> Inl e
      | Inr bs \<Rightarrow> (case encode cs of Inl e \<Rightarrow> Inl e | Inr rest \<Rightarrow> Inr (bs @ rest)))"

subsection \<open>The digest: \<^verbatim>\<open>hashlib.md5\<close>\<close>

text \<open>
  \<^verbatim>\<open>hashlib.md5\<close> computes the MD5 message digest of RFC 1321. Each of the four rounds
  is a table of sixteen operations \<open>(k, s, t)\<close>: the message word used, the rotation and
  the additive constant \<open>T[i]\<close>.
\<close>

definition md5_round1 :: "(nat \<times> nat \<times> 32 word) list" where
  "md5_round1 =
     [(0, 7, 0xd76aa478), (1, 12, 0xe8c7b756), (2, 17, 0x242070db), (3, 22, 0xc1bdceee),
      (4, 7, 0xf57c0faf), (5, 12, 0x4787c62a), (6, 17, 0xa8304613), (7, 22, 0xfd469501),
      (8, 7, 0x698098d8), (9, 12, 0x8b44f7af), (10, 17, 0xffff5bb1), (11, 22, 0x895cd7be),
      (12, 7, 0x6b901122), (13, 12, 0xfd987193), (14, 17, 0xa679438e), (15, 22, 0x49b40821)]"

definition md5_round2 :: "(nat \<times> nat \<times> 32 word) list" where
  "md5_round2 =
     [(1, 5, 0xf61e2562), (6, 9, 0xc040b340), (11, 14, 0x265e5a51), (0, 20, 0xe9b6c7aa),
      (5, 5, 0xd62f105d), (10, 9, 0x02441453), (15, 14, 0xd8a1e681), (4, 20, 0xe7d3fbc8),
      (9, 5, 0x21e1cde6), (14, 9, 0xc33707d6), (3, 14, 0xf4d50d87), (8, 20, 0x455a14ed),
      (13, 5, 0xa9e3e905), (2, 9, 0xfcefa3f8), (7, 14, 0x676f02d9), (12, 20, 0x8d2a4c8a)]"

definition md5_round3 :: "(nat \<times> nat \<times> 32 word) list" where
  "md5_round3 =
     [(5, 4, 0xfffa3942), (8, 11, 0x8771f681), (11, 16, 0x6d9d6122), (14, 23, 0xfde5380c),
      (1, 4, 0xa4beea44), (4, 11, 0x4bdecfa9), (7, 16, 0xf6bb4b60), (10, 23, 0xbebfbc70),
      (13, 4, 0x289b7ec6), (0, 11, 0xeaa127fa), (3, 16, 0xd4ef3085), (6, 23, 0x04881d05),
      (9, 4, 0xd9d4d039), (12, 11, 0xe6db99e5), (15, 16, 0x1fa27cf8), (2, 23, 0xc4ac5665)]"

definition md5_round4 :: "(nat \<times> nat \<times> 32 word) list" where
  "md5_round4 =
     [(0, 6, 0xf4292244), (7, 10, 0x432aff97), (14, 15, 0xab9423a7), (5, 21, 0xfc93a039),
      (12, 6, 0x655b59c3), (3, 10, 0x8f0ccc92), (10, 15, 0xffeff47d), (1, 21, 0x85845dd1),
      (8, 6, 0x6fa87e4f), (15, 10, 0xfe2ce6e0), (6, 15, 0xa3014314), (13, 21, 0x4e0811a1),
      (4, 6, 0xf7537e82), (11, 10, 0xbd3af235), (2, 15, 0x2ad7d2bb), (9, 21, 0xeb86d391)]"

definition rotl32 :: "32 word \<Rightarrow> nat \<Rightarrow> 32 word" where
  "rotl32 x n = push_bit n x OR drop_bit (32 - n) x"

definition md5_F :: "32 word \<Rightarrow> 32 word \<Rightarrow> 32 word \<Rightarrow> 32 word" where
  "md5_F x y z = (x AND y) OR (NOT x AND z)"

definition md5_G :: "32 word \<Rightarrow> 32 word \<Rightarrow> 32 word \<Rightarrow> 32 word" where
  "md5_G x y z = (x AND z) OR (y AND NOT z)"

definition md5_H :: "32 word \<Rightarrow> 32 word \<Rightarrow> 32 word \<Rightarrow> 32 word" where
  "md5_H x y z = x XOR y XOR z"

definition md5_I :: "32 word \<Rightarrow> 32 word \<Rightarrow> 32 word \<Rightarrow> 32 word" where
  "md5_I x y z = y XOR (x OR NOT z)"

type_synonym md5_state = "32 word \<times> 32 word \<times> 32 word \<times> 32 word"

fun md5_step :: "(32 word \<Rightarrow> 32 word \<Rightarrow> 32 word \<Rightarrow> 32 word) \<Rightarrow> 32 word list \<Rightarrow>
    md5_state \<Rightarrow> nat \<times> nat \<times> 32 word \<Rightarrow> md5_state" where
  "md5_step f x (a, b, c, d) (k, s, t) = (d, b + rotl32 (a + f b c d + x ! k + t) s, b, c)"

definition md5_ops :: "(32 word \<Rightarrow> 32 word \<Rightarrow> 32 word \<Rightarrow> 32 word) \<Rightarrow> 32 word list \<Rightarrow>
    (nat \<times> nat \<times> 32 word) list \<Rightarrow> md5_state \<Rightarrow> md5_state" where
  "md5_ops f x ops st = foldl (md5_step f x) st ops"

fun le_word32 :: "byte list \<Rightarrow> 32 word" where
  "le_word32 [] = 0"
| "le_word32 (b # bs) = ucast b + push_bit 8 (le_word32 bs)"

fun md5_words :: "byte list \<Rightarrow> 32 word list" where
  "md5_words (b0 # b1 # b2 # b3 # bs) = le_word32 [b0, b1, b2, b3] # md5_words bs"
| "md5_words bs = []"

fun md5_add :: "md5_state \<Rightarrow> md5_state \<Rightarrow> md5_state" where
  "md5_add (a0, b0, c0, d0) (a, b, c, d) = (a0 + a, b0 + b, c0 + c, d0 + d)"

definition md5_block :: "md5_state \<Rightarrow> 32 word list \<Rightarrow> md5_state" where
  "md5_block st x =
     md5_add st (md5_ops md5_I x md5_round4 (md5_ops md5_H x md5_round3
       (md5_ops md5_G x md5_round2 (md5_ops md5_F x md5_round1 st))))"

fun md5_blocks :: "md5_state \<Rightarrow> 32 word list \<Rightarrow> md5_state" where
  "md5_blocks st (x0 # x1 # x2 # x3 # x4 # x5 # x6 # x7 # x8 # x9 # x10 # x11 # x12 # x13 # x14 # x15 # xs) =
     md5_blocks (md5_block st [x0, x1, x2, x3, x4, x5, x6, x7, x8, x9, x10, x11, x12, x13, x14, x15]) xs"
| "md5_blocks st xs = st"

definition le_bytes4 :: "32 word \<Rightarrow> byte list" where
  "le_bytes4 w = [ucast w, ucast (drop_bit 8 w), ucast (drop_bit 16 w), ucast (drop_bit 24 w)]"

definition le_bytes8 :: "64 word \<Rightarrow> byte list" where
  "le_bytes8 w = [ucast w, ucast (drop_bit 8 w), ucast (drop_bit 16 w), ucast (drop_bit 24 w),
     ucast (drop_bit 32 w), ucast (drop_bit 40 w), ucast (drop_bit 48 w), ucast (drop_bit 56 w)]"

text \<open>
  Padding: a single \<open>0x80\<close> byte, zero bytes up to 56 modulo 64, then the bit length of the
  message as a 64-bit little-endian integer.
\<close>

definition md5_pad :: "byte list \<Rightarrow> byte list" where
  "md5_pad msg =
     msg @ [0x80] @ replicate ((119 - length msg mod 64) mod 64) 0
       @ le_bytes8 (of_nat (8 * length msg))"

definition md5_init :: md5_state where
  "md5_init = (0x67452301, 0xefcdab89, 0x98badcfe, 0x10325476)"

fun md5_output :: "md5_state \<Rightarrow> byte list" where
  "md5_output (a, b, c, d) = le_bytes4 a @ le_bytes4 b @ le_bytes4 c @ le_bytes4 d"

definition md5 :: "byte list \<Rightarrow> byte list" where
  "md5 msg = md5_output (md5_blocks md5_init (md5_words (md5_pad msg)))"

definition hex_digit :: "nat \<Rightarrow> char" where
  "hex_digit n = ''0123456789abcdef'' ! n"

definition hexdigest :: "byte list \<Rightarrow> string" where
  "hexdigest bs = concat (map (\<lambda>b. [hex_digit (unat b div 16), hex_digit (unat b mod 16)]) bs)"

subsection \<open>\<^verbatim>\<open>CacheManager._generate_cache_key\<close>\<close>

text \<open>
  \<^verbatim>\<open>return hashlib.md5(prompt.encode()).hexdigest()\<close>: there is no handler around the
  encoding, so its exception leaves the function.
\<close>

type_synonym cache_key = string

definition generate_cache_key :: "pystr \<Rightarrow> exn + cache_key" where
  "generate_cache_key prompt =
     (case encode prompt of Inl e \<Rightarrow> Inl e | Inr bs \<Rightarrow> Inr (hexdigest (md5 bs)))"

subsection \<open>Python floats\<close>

text \<open>
  A Python \<^verbatim>\<open>float\<close> is an IEEE 754 double. A clock reading of \<^verbatim>\<open>time.time()\<close>, a time to
  live and an expiry are the real numbers such doubles denote; comparing two of them is
  exact. The sum of two doubles is the exact sum rounded to the nearest double, ties to the
  even significand: \<open>double_round\<close> rounds to 53 significant bits. The exponent is not
  bounded here: clock readings and their sums with a time to live are far from overflow and
  from the subnormal numbers.
\<close>

definition round_half_even :: "real \<Rightarrow> int" where
  "round_half_even q =
     (let n = \<lfloor>q\<rfloor> in
      if q - of_int n < 1 / 2 then n
      else if 1 / 2 < q - of_int n then n + 1
      else if even n then n else n + 1)"

definition double_round :: "real \<Rightarrow> real" where
  "double_round x =
     (if x = 0 then 0
      else
        (let ulp = 2 powr (of_int \<lfloor>log 2 \<bar>x\<bar>\<rfloor> - 52)
         in of_int (round_half_even (x / ulp)) * ulp))"

subsection \<open>The state of a \<^verbatim>\<open>CacheManager\<close> and of the Firestore collection\<close>

text \<open>A cached response is a Python dictionary; an empty dictionary is falsy.\<close>

type_synonym response = "(string \<times> string) list"

record cache_manager =
  firebase_enabled :: bool
  memory_cache :: "cache_key \<rightharpoonup> response"
  memory_cache_expiry :: "cache_key \<rightharpoonup> real"
  cache_ttl :: real
  s2_persistence_enabled :: bool
  q4d_lens_enabled :: bool

text \<open>
  \<^verbatim>\<open>CacheManager.__init__\<close> starts with two empty dictionaries; the switches come from the
  configuration (\<open>fe\<close> is the value of \<^verbatim>\<open>firebase_enabled\<close> once the client has been
  set up).
\<close>

definition init_cache_manager :: "bool \<Rightarrow> real \<Rightarrow> bool \<Rightarrow> bool \<Rightarrow> cache_manager" where
  "init_cache_manager fe ttl s2 q4d =
     \<lparr>firebase_enabled = fe, memory_cache = Map.empty, memory_cache_expiry = Map.empty,
      cache_ttl = ttl, s2_persistence_enabled = s2, q4d_lens_enabled = q4d\<rparr>"

text \<open>
  A document of the collection is the dictionary written by \<^verbatim>\<open>set\<close>; a field may be
  missing from a document written by somebody else. \<open>doc_s2_metadata\<close> tells whether the
  block of S2 persistence entries is attached. The collection lists the documents by
  document id, in the order in which a query streams them.
\<close>

record fb_doc =
  doc_prompt :: "pystr option"
  doc_response :: "response option"
  doc_expiry :: "real option"
  doc_hash_key :: "cache_key option"
  doc_s2_metadata :: bool

type_synonym collection = "(string \<times> fb_doc) list"

text \<open>
  The Firestore client is outside the repository. Each of its calls that reaches Firestore
  either does what the client library documents or raises; the three switches say which
  calls raise.
\<close>

record firebase =
  fb_docs :: collection
  fb_read_raises :: bool
  fb_delete_raises :: bool
  fb_write_raises :: bool

text \<open>What a call of \<^verbatim>\<open>get\<close> or \<^verbatim>\<open>set\<close> does on the durable tier, in order.\<close>

datatype fb_event = DocGet string | DocDelete string | TransactionSet string | Warning exn

subsection \<open>\<^verbatim>\<open>CacheManager.get\<close>\<close>

text \<open>The check of the memory cache, with the removal of an expired entry.\<close>

definition get_memory :: "cache_manager \<Rightarrow> real \<Rightarrow> cache_key \<Rightarrow> exn + (response option \<times> cache_manager)" where
  "get_memory cm current_time cache_key =
     (case memory_cache cm cache_key of
        None \<Rightarrow> Inr (None, cm)
      | Some r \<Rightarrow>
          (case memory_cache_expiry cm cache_key of
             None \<Rightarrow> Inl KeyError
           | Some expiry \<Rightarrow>
               if expiry > current_time then Inr (Some r, cm)
               else Inr (None, cm\<lparr>memory_cache := (memory_cache cm)(cache_key := None),
                                   memory_cache_expiry := (memory_cache_expiry cm)(cache_key := None)\<rparr>)))"

text \<open>\<^verbatim>\<open>data.get('expiry', 0)\<close>: a document without the field counts as expired at time 0.\<close>

definition expiry_of :: "fb_doc \<Rightarrow> real" where
  "expiry_of data = (case doc_expiry data of None \<Rightarrow> 0 | Some e \<Rightarrow> e)"

text \<open>
  What the Firestore lookup does with the document it found: the comparison of its expiry
  with the current time, the update of the memory cache and the return of
  \<^verbatim>\<open>data['response']\<close>, or the deletion of the document.
\<close>

definition use_document :: "cache_manager \<Rightarrow> firebase \<Rightarrow> real \<Rightarrow> cache_key \<Rightarrow> string \<Rightarrow> fb_doc \<Rightarrow>
    (exn + response option) \<times> cache_manager \<times> firebase \<times> fb_event list" where
  "use_document cm fb current_time cache_key doc_id data =
     (let expiry = expiry_of data in
      if expiry > current_time then
        (case doc_response data of
           None \<Rightarrow> (Inl KeyError, cm, fb, [])
         | Some r \<Rightarrow>
             (Inr (Some r),
              cm\<lparr>memory_cache := (memory_cache cm)(cache_key \<mapsto> r),
                 memory_cache_expiry := (memory_cache_expiry cm)(cache_key \<mapsto> expiry)\<rparr>,
              fb, []))
      else if fb_delete_raises fb then (Inl FirebaseError, cm, fb, [DocDelete doc_id])
      else (Inr None, cm, fb\<lparr>fb_docs := AList.delete doc_id (fb_docs fb)\<rparr>, [DocDelete doc_id]))"

text \<open>
  The body of the \<^verbatim>\<open>try\<close> block. With the Q4D lens the code builds a query on the field
  \<^verbatim>\<open>hash_key\<close> and calls \<^verbatim>\<open>query.optimize_query_lens("q4d")\<close> on it. No file of the
  repository defines \<^verbatim>\<open>optimize_query_lens\<close> and the queries of the Firestore client have
  no such method, so this statement raises \<^verbatim>\<open>AttributeError\<close> before anything is sent to
  Firestore; the statements after it in that branch are never reached. Without the lens
  the document is read by its document id. \<open>Inl\<close> is an exception raised inside the block.
\<close>

definition firebase_get :: "cache_manager \<Rightarrow> firebase \<Rightarrow> real \<Rightarrow> cache_key \<Rightarrow>
    (exn + response option) \<times> cache_manager \<times> firebase \<times> fb_event list" where
  "firebase_get cm fb current_time cache_key =
     (if q4d_lens_enabled cm then (Inl AttributeError, cm, fb, [])
      else
        (if fb_read_raises fb then (Inl FirebaseError, cm, fb, [DocGet cache_key])
         else
           (case map_of (fb_docs fb) cache_key of
              None \<Rightarrow> (Inr None, cm, fb, [DocGet cache_key])
            | Some data \<Rightarrow>
                (case use_document cm fb current_time cache_key cache_key data of
                   (r, cm', fb', evs) \<Rightarrow> (r, cm', fb', DocGet cache_key # evs)))))"

text \<open>
  The \<^verbatim>\<open>try\<close> statement with its handler \<^verbatim>\<open>except Exception\<close>, which logs a warning;
  after it the function returns \<^verbatim>\<open>None\<close>.
\<close>

definition get_firebase :: "cache_manager \<Rightarrow> firebase \<Rightarrow> real \<Rightarrow> cache_key \<Rightarrow>
    response option \<times> cache_manager \<times> firebase \<times> fb_event list" where
  "get_firebase cm fb current_time cache_key =
     (if firebase_enabled cm then
        (case firebase_get cm fb current_time cache_key of
           (Inl e, cm', fb', evs) \<Rightarrow> (None, cm', fb', evs @ [Warning e])
         | (Inr r, cm', fb', evs) \<Rightarrow> (r, cm', fb', evs))
      else (None, cm, fb, []))"

definition get :: "cache_manager \<Rightarrow> firebase \<Rightarrow> real \<Rightarrow> pystr \<Rightarrow>
    exn + (response option \<times> cache_manager \<times> firebase \<times> fb_event list)" where
  "get cm fb current_time prompt =
     (case generate_cache_key prompt of
        Inl e \<Rightarrow> Inl e
      | Inr cache_key \<Rightarrow>
          (case get_memory cm current_time cache_key of
             Inl e \<Rightarrow> Inl e
           | Inr (Some r, cm') \<Rightarrow> Inr (Some r, cm', fb, [])
           | Inr (None, cm') \<Rightarrow> Inr (get_firebase cm' fb current_time cache_key)))"

subsection \<open>\<^verbatim>\<open>CacheManager.set\<close>\<close>

text \<open>
  The body of the \<^verbatim>\<open>try\<close> block of \<^verbatim>\<open>set\<close>: the document is built and written in one
  transaction under the document id \<^verbatim>\<open>cache_key\<close>. In \<^verbatim>\<open>set\<close> itself the expiry is the
  float sum \<^verbatim>\<open>time.time() + self.cache_ttl\<close>.
\<close>

definition firebase_set :: "cache_manager \<Rightarrow> firebase \<Rightarrow> pystr \<Rightarrow> response \<Rightarrow> real \<Rightarrow> cache_key \<Rightarrow>
    (exn + unit) \<times> firebase \<times> fb_event list" where
  "firebase_set cm fb prompt response expiry cache_key =
     (let cache_data = \<lparr>doc_prompt = Some prompt, doc_response = Some response,
            doc_expiry = Some expiry, doc_hash_key = Some cache_key,
            doc_s2_metadata = s2_persistence_enabled cm\<rparr> in
      if fb_write_raises fb then (Inl FirebaseError, fb, [TransactionSet cache_key])
      else (Inr (), fb\<lparr>fb_docs := AList.update cache_key cache_data (fb_docs fb)\<rparr>,
            [TransactionSet cache_key]))"

definition set_cache :: "cache_manager \<Rightarrow> firebase \<Rightarrow> real \<Rightarrow> pystr \<Rightarrow> response \<Rightarrow>
    exn + (cache_manager \<times> firebase \<times> fb_event list)" where
  "set_cache cm fb current_time prompt response =
     (case generate_cache_key prompt of
        Inl e \<Rightarrow> Inl e
      | Inr cache_key \<Rightarrow>
          (let expiry = double_round (current_time + cache_ttl cm);
               cm' = cm\<lparr>memory_cache := (memory_cache cm)(cache_key \<mapsto> response),
                        memory_cache_expiry := (memory_cache_expiry cm)(cache_key \<mapsto> expiry)\<rparr>
           in if firebase_enabled cm then
                (case firebase_set cm' fb prompt response expiry cache_key of
                   (Inl e, fb', evs) \<Rightarrow> Inr (cm', fb', evs @ [Warning e])
                 | (Inr u, fb', evs) \<Rightarrow> Inr (cm', fb', evs))
              else Inr (cm', fb, [])))"

text \<open>The two dictionaries of the memory cache hold the same keys.\<close>

definition cache_inv :: "cache_manager \<Rightarrow> bool" where
  "cache_inv cm \<longleftrightarrow> dom (memory_cache cm) = dom (memory_cache_expiry cm)"

text \<open>
  The cache manager once \<^verbatim>\<open>get\<close> has deleted the entry of a key from both dictionaries of
  the memory cache.
\<close>

definition without_entry :: "cache_manager \<Rightarrow> cache_key \<Rightarrow> cache_manager" where
  "without_entry cm cache_key =
     cm\<lparr>memory_cache := (memory_cache cm)(cache_key := None),
        memory_cache_expiry := (memory_cache_expiry cm)(cache_key := None)\<rparr>"

text \<open>
  The cache manager once an entry has been written to both dictionaries of the memory
  cache, by \<^verbatim>\<open>set\<close> or from a document of the collection.
\<close>

definition with_entry :: "cache_manager \<Rightarrow> cache_key \<Rightarrow> response \<Rightarrow> real \<Rightarrow> cache_manager" where
  "with_entry cm cache_key r expiry =
     cm\<lparr>memory_cache := (memory_cache cm)(cache_key \<mapsto> r),
        memory_cache_expiry := (memory_cache_expiry cm)(cache_key \<mapsto> expiry)\<rparr>"

text \<open>
  The memory cache has no live entry for the key at the time of the lookup: there is no
  entry and the cache manager stays as it is, or the entry has expired and is deleted.
\<close>

definition memory_miss :: "cache_manager \<Rightarrow> real \<Rightarrow> cache_key \<Rightarrow> cache_manager \<Rightarrow> bool" where
  "memory_miss cm current_time cache_key cm0 \<longleftrightarrow>
     (case memory_cache cm cache_key of
        None \<Rightarrow> cm0 = cm
      | Some v \<Rightarrow>
          (case memory_cache_expiry cm cache_key of
             None \<Rightarrow> False
           | Some e \<Rightarrow> e \<le> current_time \<and> cm0 = without_entry cm cache_key))"

subsection \<open>States used by the examples\<close>

definition empty_firebase :: firebase where
  "empty_firebase =
     \<lparr>fb_docs = [], fb_read_raises = False, fb_delete_raises = False, fb_write_raises = False\<rparr>"


text \<open>
  A collection with one live document for the prompt \<^verbatim>\<open>summarize: X\<close>, as \<^verbatim>\<open>set\<close> writes
  it at time 1000 with a time to live of 3600 seconds.
\<close>

definition summarize_firebase :: firebase where
  "summarize_firebase =
     \<lparr>fb_docs = [(''64a03532e8c92ba6aa556928612bba5e'',
        \<lparr>doc_prompt = Some (ascii ''summarize: X''), doc_response = Some [(''text'', ''Y'')],
         doc_expiry = Some 4600, doc_hash_key = Some ''64a03532e8c92ba6aa556928612bba5e'',
         doc_s2_metadata = False\<rparr>)],
      fb_read_raises = False, fb_delete_raises = False, fb_write_raises = False\<rparr>"

section \<open>Evaluating the digest\<close>

text \<open>
  The digest of a concrete message is computed round by round, so that each step stays small.
\<close>

lemma replicate_numeral: "replicate (numeral k) x = x # replicate (pred_numeral k) x"
  by (simp add: numeral_eq_Suc)

lemma summarize_words:
  "md5_words (md5_pad
     [115, 117, 109, 109, 97, 114, 105, 122, 101, 58, 32, 88]) =
     [1835890035, 2053730913, 1478507109, 128, 0, 0, 0, 0, 0, 0, 0, 0, 0, 0, 96, 0]"
  by (simp add: md5_pad_def le_bytes8_def replicate_numeral)

lemma summarize_block1:
  "md5_block (1732584193, 4023233417, 2562383102, 271733878)
     [1835890035, 2053730913, 1478507109, 128, 0, 0, 0, 0, 0, 0, 0, 0, 0, 0, 96, 0] =
     (842375268, 2787887592, 677991850, 1589259105)"
  (is "md5_block _ ?x = _")
proof -
  have r1: "md5_ops md5_F ?x md5_round1
      (1732584193, 4023233417, 2562383102, 271733878) =
      (2602924380, 2919218917, 2662676999, 2713518269)"
    by (simp add: md5_ops_def md5_F_def md5_round1_def rotl32_def)
  have r2: "md5_ops md5_G ?x md5_round2
      (2602924380, 2919218917, 2662676999, 2713518269) =
      (1822097902, 1876271264, 1917808396, 940518359)"
    by (simp add: md5_ops_def md5_G_def md5_round2_def rotl32_def)
  have r3: "md5_ops md5_H ?x md5_round3
      (1822097902, 1876271264, 1917808396, 940518359) =
      (3276982347, 279343569, 4157421936, 1542411351)"
    by (simp add: md5_ops_def md5_H_def md5_round3_def rotl32_def)
  have r4: "md5_ops md5_I ?x md5_round4
      (3276982347, 279343569, 4157421936, 1542411351) =
      (3404758371, 3059621471, 2410576044, 1317525227)"
    by (simp add: md5_ops_def md5_I_def md5_round4_def rotl32_def)
  show ?thesis
    by (simp add: md5_block_def r1 r2 r3 r4)
qed

lemma summarize_key:
  "generate_cache_key (ascii ''summarize: X'') =
     Inr ''64a03532e8c92ba6aa556928612bba5e''"
  by (simp add: generate_cache_key_def ascii_def utf8_char_def md5_def summarize_words md5_init_def
      summarize_block1 le_bytes4_def hexdigest_def hex_digit_def)

lemma text_a_words:
  "md5_words (md5_pad
     [84, 69, 88, 84, 67, 79, 76, 76, 66, 89, 102, 71, 105, 74, 85, 69, 84, 72, 81, 52, 104,
       65, 99, 75, 83, 77, 100, 53, 122, 89, 112, 103, 113, 102, 49, 89, 82, 68, 104, 107, 109,
       120, 72, 107, 104, 80, 87, 112, 116, 114, 107, 111, 121, 122, 50, 56, 119, 110, 73, 57,
       86, 48, 97, 72, 101, 65, 117, 97, 75, 110, 97, 107]) =
     [1415071060, 1280069443, 1197889858, 1163217513, 877742164, 1264796008, 895765843,
       1735416186, 1496409713, 1801995346, 1799911533, 1884770408, 1869312628, 942832249,
       961113719, 1214328918, 1635074405, 1801547339, 128, 0, 0, 0, 0, 0, 0, 0, 0, 0, 0, 0,
       576, 0]"
  by (simp add: md5_pad_def le_bytes8_def replicate_numeral)

lemma text_a_block1:
  "md5_block (1732584193, 4023233417, 2562383102, 271733878)
     [1415071060, 1280069443, 1197889858, 1163217513, 877742164, 1264796008, 895765843,
       1735416186, 1496409713, 1801995346, 1799911533, 1884770408, 1869312628, 942832249,
       961113719, 1214328918] =
     (3794714596, 2653601834, 2607495017, 3445199489)"
  (is "md5_block _ ?x = _")
proof -
  have r1: "md5_ops md5_F ?x md5_round1
      (1732584193, 4023233417, 2562383102, 271733878) =
      (4205716656, 2072393527, 3878364225, 2298387597)"
    by (simp add: md5_ops_def md5_F_def md5_round1_def rotl32_def)
  have r2: "md5_ops md5_G ?x md5_round2
      (4205716656, 2072393527, 3878364225, 2298387597) =
      (3331794094, 2007385661, 4162421965, 2031996124)"
    by (simp add: md5_ops_def md5_G_def md5_round2_def rotl32_def)
  have r3: "md5_ops md5_H ?x md5_round3
      (3331794094, 2007385661, 4162421965, 2031996124) =
      (1669367554, 2840004908, 3919165654, 1342570473)"
    by (simp add: md5_ops_def md5_H_def md5_round3_def rotl32_def)
  have r4: "md5_ops md5_I ?x md5_round4
      (1669367554, 2840004908, 3919165654, 1342570473) =
      (2062130403, 2925335713, 45111915, 3173465611)"
    by (simp add: md5_ops_def md5_I_def md5_round4_def rotl32_def)
  show ?thesis
    by (simp add: md5_block_def r1 r2 r3 r4)
qed

lemma text_a_block2:
  "md5_block (3794714596, 2653601834, 2607495017, 3445199489)
     [1635074405, 1801547339, 128, 0, 0, 0, 0, 0, 0, 0, 0, 0, 0, 0, 576, 0] =
     (2252975610, 4237857902, 687151383, 1761770142)"
  (is "md5_block _ ?x = _")
proof -
  have r1: "md5_ops md5_F ?x md5_round1
      (3794714596, 2653601834, 2607495017, 3445199489) =
      (3559571843, 2501301673, 3331964849, 3601571161)"
    by (simp add: md5_ops_def md5_F_def md5_round1_def rotl32_def)
  have r2: "md5_ops md5_G ?x md5_round2
      (3559571843, 2501301673, 3331964849, 3601571161) =
      (3598795142, 1983263341, 3997540728, 2994268747)"
    by (simp add: md5_ops_def md5_G_def md5_round2_def rotl32_def)
  have r3: "md5_ops md5_H ?x md5_round3
      (3598795142, 1983263341, 3997540728, 2994268747) =
      (3347343850, 2320984145, 3450301385, 3968142795)"
    by (simp add: md5_ops_def md5_H_def md5_round3_def rotl32_def)
  have r4: "md5_ops md5_I ?x md5_round4
      (3347343850, 2320984145, 3450301385, 3968142795) =
      (2753228310, 1584256068, 2374623662, 2611537949)"
    by (simp add: md5_ops_def md5_I_def md5_round4_def rotl32_def)
  show ?thesis
    by (simp add: md5_block_def r1 r2 r3 r4)
qed

lemma text_a_key:
  "generate_cache_key (ascii ''TEXTCOLLBYfGiJUETHQ4hAcKSMd5zYpgqf1YRDhkmxHkhPWptrkoyz28wnI9V0aHeAuaKnak'') =
     Inr ''faad49866e9498fc1719f5289e7a0269''"
  by (simp add: generate_cache_key_def ascii_def utf8_char_def md5_def text_a_words md5_init_def
      text_a_block1 text_a_block2 le_bytes4_def hexdigest_def hex_digit_def)

lemma text_b_words:
  "md5_words (md5_pad
     [84, 69, 88, 84, 67, 79, 76, 76, 66, 89, 102, 71, 105, 74, 85, 69, 84, 72, 81, 52, 104,
       69, 99, 75, 83, 77, 100, 53, 122, 89, 112, 103, 113, 102, 49, 89, 82, 68, 104, 107, 109,
       120, 72, 107, 104, 80, 87, 112, 116, 114, 107, 111, 121, 122, 50, 56, 119, 110, 73, 57,
       86, 48, 97, 72, 101, 65, 117, 97, 75, 110, 97, 107]) =
     [1415071060, 1280069443, 1197889858, 1163217513, 877742164, 1264797032, 895765843,
       1735416186, 1496409713, 1801995346, 1799911533, 1884770408, 1869312628, 942832249,
       961113719, 1214328918, 1635074405, 1801547339, 128, 0, 0, 0, 0, 0, 0, 0, 0, 0, 0, 0,
       576, 0]"
  by (simp add: md5_pad_def le_bytes8_def replicate_numeral)

lemma text_b_block1:
  "md5_block (1732584193, 4023233417, 2562383102, 271733878)
     [1415071060, 1280069443, 1197889858, 1163217513, 877742164, 1264797032, 895765843,
       1735416186, 1496409713, 1801995346, 1799911533, 1884770408, 1869312628, 942832249,
       961113719, 1214328918] =
     (1647230948, 506118186, 460011369, 1297715841)"
  (is "md5_block _ ?x = _")
proof -
  have r1: "md5_ops md5_F ?x md5_round1
      (1732584193, 4023233417, 2562383102, 271733878) =
      (4272825526, 2068214583, 3949537855, 2365627607)"
    by (simp add: md5_ops_def md5_F_def md5_round1_def rotl32_def)
  have r2: "md5_ops md5_G ?x md5_round2
      (4272825526, 2068214583, 3949537855, 2365627607) =
      (3331793070, 2007385661, 4162421965, 2031996124)"
    by (simp add: md5_ops_def md5_G_def md5_round2_def rotl32_def)
  have r3: "md5_ops md5_H ?x md5_round3
      (3331793070, 2007385661, 4162421965, 2031996124) =
      (1669367554, 2840004908, 3919165654, 1342570473)"
    by (simp add: md5_ops_def md5_H_def md5_round3_def rotl32_def)
  have r4: "md5_ops md5_I ?x md5_round4
      (1669367554, 2840004908, 3919165654, 1342570473) =
      (4209614051, 777852065, 2192595563, 1025981963)"
    by (simp add: md5_ops_def md5_I_def md5_round4_def rotl32_def)
  show ?thesis
    by (simp add: md5_block_def r1 r2 r3 r4)
qed

lemma text_b_block2:
  "md5_block (1647230948, 506118186, 460011369, 1297715841)
     [1635074405, 1801547339, 128, 0, 0, 0, 0, 0, 0, 0, 0, 0, 0, 0, 576, 0] =
     (2252975610, 4237857902, 687151383, 1761770142)"
  (is "md5_block _ ?x = _")
proof -
  have r1: "md5_ops md5_F ?x md5_round1
      (1647230948, 506118186, 460011369, 1297715841) =
      (1412088195, 353818025, 1184481201, 1454087513)"
    by (simp add: md5_ops_def md5_F_def md5_round1_def rotl32_def)
  have r2: "md5_ops md5_G ?x md5_round2
      (1412088195, 353818025, 1184481201, 1454087513) =
      (1451311494, 4130746989, 1850057080, 846785099)"
    by (simp add: md5_ops_def md5_G_def md5_round2_def rotl32_def)
  have r3: "md5_ops md5_H ?x md5_round3
      (1451311494, 4130746989, 1850057080, 846785099) =
      (1199860202, 173500497, 1302817737, 1820659147)"
    by (simp add: md5_ops_def md5_H_def md5_round3_def rotl32_def)
  have r4: "md5_ops md5_I ?x md5_round4
      (1199860202, 173500497, 1302817737, 1820659147) =
      (605744662, 3731739716, 227140014, 464054301)"
    by (simp add: md5_ops_def md5_I_def md5_round4_def rotl32_def)
  show ?thesis
    by (simp add: md5_block_def r1 r2 r3 r4)
qed

lemma text_b_key:
  "generate_cache_key (ascii ''TEXTCOLLBYfGiJUETHQ4hEcKSMd5zYpgqf1YRDhkmxHkhPWptrkoyz28wnI9V0aHeAuaKnak'') =
     Inr ''faad49866e9498fc1719f5289e7a0269''"
  by (simp add: generate_cache_key_def ascii_def utf8_char_def md5_def text_b_words md5_init_def
      text_b_block1 text_b_block2 le_bytes4_def hexdigest_def hex_digit_def)

section \<open>Properties of the float sum\<close>

lemma round_half_even_int: "round_half_even (of_int z) = z"
  by (simp add: round_half_even_def)

lemma round_half_even_err: "\<bar>of_int (round_half_even q) - q\<bar> \<le> 1 / 2"
proof -
  have "of_int \<lfloor>q\<rfloor> \<le> q" "q < of_int \<lfloor>q\<rfloor> + 1" by linarith+
  then show ?thesis
    by (auto simp: round_half_even_def Let_def)
qed

lemma double_ulp:
  assumes "x \<noteq> 0"
  shows "0 < (2::real) powr (of_int \<lfloor>log 2 \<bar>x\<bar>\<rfloor> - 52)"
    and "(2::real) powr (of_int \<lfloor>log 2 \<bar>x\<bar>\<rfloor> - 52) \<le> \<bar>x\<bar> / 2 ^ 52"
proof -
  show "0 < (2::real) powr (of_int \<lfloor>log 2 \<bar>x\<bar>\<rfloor> - 52)" by simp
  from assms have "0 < \<bar>x\<bar>" by simp
  then have "(2::real) powr (of_int \<lfloor>log 2 \<bar>x\<bar>\<rfloor>) \<le> \<bar>x\<bar>"
    using floor_log_eq_powr_iff [of "\<bar>x\<bar>" 2 "\<lfloor>log 2 \<bar>x\<bar>\<rfloor>"] by simp
  moreover have "(2::real) powr (of_int \<lfloor>log 2 \<bar>x\<bar>\<rfloor> - 52)
      = 2 powr (of_int \<lfloor>log 2 \<bar>x\<bar>\<rfloor>) / 2 ^ 52"
    by (simp add: powr_diff)
  ultimately show "(2::real) powr (of_int \<lfloor>log 2 \<bar>x\<bar>\<rfloor> - 52) \<le> \<bar>x\<bar> / 2 ^ 52"
    by (simp add: divide_right_mono)
qed

lemma double_round_err: "\<bar>double_round x - x\<bar> \<le> \<bar>x\<bar> / 2 ^ 53"
proof (cases "x = 0")
  case True
  then show ?thesis by (simp add: double_round_def)
next
  case False
  define u :: real where "u = 2 powr (of_int \<lfloor>log 2 \<bar>x\<bar>\<rfloor> - 52)"
  have u: "0 < u" "u \<le> \<bar>x\<bar> / 2 ^ 52"
    using double_ulp [OF False] by (simp_all add: u_def)
  have "double_round x - x = (of_int (round_half_even (x / u)) - x / u) * u"
    using False u by (simp add: double_round_def u_def [symmetric] Let_def algebra_simps)
  then have "\<bar>double_round x - x\<bar> = \<bar>of_int (round_half_even (x / u)) - x / u\<bar> * u"
    using u by (simp add: abs_mult)
  also have "\<dots> \<le> (1 / 2) * u"
    using round_half_even_err [of "x / u"] u by (intro mult_right_mono) simp_all
  also have "\<dots> \<le> (1 / 2) * (\<bar>x\<bar> / 2 ^ 52)"
    using u by simp
  finally show ?thesis by simp
qed

text \<open>
  The rounded sum of a positive clock reading and of an addend that is not tiny against
  it lies strictly above the clock reading.
\<close>

lemma double_round_add_gt:
  assumes "0 < t" "t < d * (2 ^ 53 - 1)"
  shows "t < double_round (t + d)"
proof -
  from assms have "0 < d * (2 ^ 53 - 1)" by linarith
  then have d: "0 < d" by (simp add: zero_less_mult_iff)
  define e where "e = (t + d) / 2 ^ 53"
  have "\<bar>t + d\<bar> = t + d" using assms d by simp
  then have "\<bar>double_round (t + d) - (t + d)\<bar> \<le> e"
    using double_round_err [of "t + d"] by (simp add: e_def)
  then have "t + d - e \<le> double_round (t + d)" by linarith
  then have "t + d - (t + d) / 2 ^ 53 \<le> double_round (t + d)" by (simp add: e_def)
  moreover have "t < t + d - (t + d) / 2 ^ 53"
  proof -
    have "t * 2 ^ 53 < (t + d) * (2 ^ 53 - 1)"
      using assms by (simp add: algebra_simps)
    then have "t < (t + d) * (2 ^ 53 - 1) / 2 ^ 53"
      by (simp add: pos_less_divide_eq)
    also have "\<dots> = t + d - (t + d) / 2 ^ 53"
      by (simp add: field_simps)
    finally show ?thesis .
  qed
  ultimately show ?thesis by linarith
qed

lemma floor_log2_between:
  assumes "2 ^ k \<le> \<bar>x\<bar>" "\<bar>x\<bar> < 2 ^ Suc k"
  shows "\<lfloor>log 2 \<bar>x :: real\<bar>\<rfloor> = int k"
proof -
  have "(0::real) < 2 ^ k" by simp
  with assms(1) have "0 < \<bar>x\<bar>" by linarith
  moreover have "(2::real) powr (of_int (int k)) = 2 ^ k" by (simp add: powr_realpow)
  moreover have "(2::real) powr (of_int (int k + 1)) = 2 ^ Suc k"
    using powr_realpow [of 2 "Suc k"] by (simp add: add.commute)
  ultimately show ?thesis
    using assms floor_log_eq_powr_iff [of "\<bar>x\<bar>" 2 "int k"] by simp
qed

lemma double_round_between:
  assumes "2 ^ k \<le> \<bar>x\<bar>" "\<bar>x\<bar> < 2 ^ Suc k" "k \<le> 52"
  shows "double_round x = of_int (round_half_even (x * 2 ^ (52 - k))) / 2 ^ (52 - k)"
proof -
  have "(0::real) < 2 ^ k" by simp
  with assms(1) have "0 < \<bar>x\<bar>" by linarith
  then have nz: "x \<noteq> 0" by simp
  have "of_int (int k) - 52 = - real (52 - k)" using assms(3) by simp
  then have u: "(2::real) powr (of_int (int k) - 52) = 1 / 2 ^ (52 - k)"
    by (simp only: powr_minus_divide powr_realpow zero_less_numeral)
  have "double_round x
      = of_int (round_half_even (x / 2 powr (of_int (int k) - 52))) * 2 powr (of_int (int k) - 52)"
    unfolding double_round_def Let_def floor_log2_between [OF assms(1,2)] using nz by simp
  also have "\<dots> = of_int (round_half_even (x * 2 ^ (52 - k))) / 2 ^ (52 - k)"
    unfolding u by simp
  finally show ?thesis .
qed

lemma double_round_int:
  assumes "x \<in> \<int>" "\<bar>x\<bar> < 2 ^ 53"
  shows "double_round x = x"
proof (cases "x = 0")
  case True
  then show ?thesis by (simp add: double_round_def)
next
  case False
  from assms(1) obtain z where z: "x = of_int z" by (auto elim: Ints_cases)
  with False have "1 \<le> \<bar>x\<bar>" by auto
  define e where "e = \<lfloor>log 2 \<bar>x\<bar>\<rfloor>"
  have pos: "0 < \<bar>x\<bar>" using False by simp
  have b: "2 powr (of_int e) \<le> \<bar>x\<bar>" "\<bar>x\<bar> < 2 powr (of_int (e + 1))"
    using floor_log_eq_powr_iff [of "\<bar>x\<bar>" 2 e] pos by (simp_all add: e_def)
  have "0 \<le> log 2 \<bar>x\<bar>" using \<open>1 \<le> \<bar>x\<bar>\<close> by simp
  then have e0: "0 \<le> e" by (simp add: e_def)
  have "log 2 \<bar>x\<bar> < 53"
    using assms(2) pos by (simp add: log_less_iff)
  then have e52: "e \<le> 52" by (simp add: e_def floor_le_iff)
  define k where "k = nat e"
  have pe: "(2::real) powr (of_int e) = 2 ^ k"
    using e0 by (simp add: powr_real_of_int k_def)
  have "nat (e + 1) = Suc k" using e0 by (simp add: k_def)
  then have pe1: "(2::real) powr (of_int (e + 1)) = 2 ^ Suc k"
    using e0 powr_real_of_int [of 2 "e + 1"] by simp
  have k: "2 ^ k \<le> \<bar>x\<bar>" "\<bar>x\<bar> < 2 ^ Suc k" "k \<le> 52"
    using b e52 e0 unfolding pe pe1 by (simp_all add: k_def)
  have "x * 2 ^ (52 - k) = of_int (z * 2 ^ (52 - k))" by (simp add: z)
  then have "round_half_even (x * 2 ^ (52 - k)) = z * 2 ^ (52 - k)"
    by (simp only: round_half_even_int)
  then show ?thesis
    using double_round_between [OF k] by (simp add: z)
qed

lemma double_round_4600: "double_round 4600 = 4600"
  using double_round_int [of 4600] by simp

lemma double_round_5400: "double_round 5400 = 5400"
  using double_round_int [of 5400] by simp

text \<open>
  A time to live of \<open>1 / 2 ^ 30\<close> seconds is absorbed by a clock reading of today: the
  spacing of the doubles near 1700000000 is \<open>1 / 2 ^ 22\<close>.
\<close>

lemma double_round_tiny: "double_round (1700000000 + 1 / 2 ^ 30) = 1700000000"
proof -
  have "(1700000000 + 1 / 2 ^ 30) * 2 ^ 22 = (7130316800000000 + 1 / 256 :: real)"
    by simp
  moreover have "\<lfloor>7130316800000000 + 1 / 256 :: real\<rfloor> = 7130316800000000"
    by (simp add: floor_eq_iff)
  ultimately have "round_half_even ((1700000000 + 1 / 2 ^ 30) * 2 ^ 22) = 7130316800000000"
    by (simp add: round_half_even_def)
  then show ?thesis
    using double_round_between [of 30 "1700000000 + 1 / 2 ^ 30"] by simp
qed

lemma double_round_tiny_sum: "double_round (1825361100800000001 / 1073741824) = 1700000000"
  using double_round_tiny by simp

section \<open>Properties of the key derivation\<close>

lemma encode_error: "encode p = Inl e \<Longrightarrow> e = UnicodeEncodeError"
  by (induction p arbitrary: e) (auto simp: utf8_char_def split: sum.splits if_splits)

lemma generate_cache_key_error: "generate_cache_key p = Inl e \<Longrightarrow> e = UnicodeEncodeError"
  by (auto simp: generate_cache_key_def split: sum.splits dest: encode_error)

lemma utf8_char_Inl_iff: "(\<exists>e. utf8_char c = Inl e) \<longleftrightarrow> surrogate c"
  by (auto simp: utf8_char_def surrogate_def)

lemma encode_Inl_iff: "(\<exists>e. encode p = Inl e) \<longleftrightarrow> (\<exists>c \<in> set p. surrogate c)"
proof (induction p)
  case Nil
  then show ?case by simp
next
  case (Cons c cs)
  show ?case
  proof (cases "utf8_char c")
    case (Inl e)
    then have "surrogate c" using utf8_char_Inl_iff by blast
    with Inl show ?thesis by simp
  next
    case (Inr bs)
    then have "\<not> surrogate c" using utf8_char_Inl_iff [of c] by auto
    with Inr Cons show ?thesis by (auto split: sum.splits)
  qed
qed

lemma generate_cache_key_surrogate:
  "\<exists>c \<in> set p. surrogate c \<Longrightarrow> generate_cache_key p = Inl UnicodeEncodeError"
proof -
  assume "\<exists>c \<in> set p. surrogate c"
  then obtain e where "encode p = Inl e" using encode_Inl_iff by blast
  then show ?thesis using encode_error by (auto simp: generate_cache_key_def)
qed

lemma generate_cache_key_defined:
  "\<not> (\<exists>c \<in> set p. surrogate c) \<Longrightarrow> \<exists>k. generate_cache_key p = Inr k"
proof -
  assume "\<not> (\<exists>c \<in> set p. surrogate c)"
  then have "\<not> (\<exists>e. encode p = Inl e)" using encode_Inl_iff by blast
  then obtain bs where "encode p = Inr bs" by (cases "encode p") auto
  then show ?thesis by (simp add: generate_cache_key_def)
qed

lemma length_md5: "length (md5 bs) = 16"
  by (cases "md5_blocks md5_init (md5_words (md5_pad bs))") (simp add: md5_def le_bytes4_def)

lemma length_hexdigest: "length (hexdigest bs) = 2 * length bs"
  by (induction bs) (simp_all add: hexdigest_def)

lemma hex_digit_mem: "n < 16 \<Longrightarrow> hex_digit n \<in> set ''0123456789abcdef''"
  unfolding hex_digit_def by (rule nth_mem) simp

lemma unat_byte_div: "unat (b :: byte) div 16 < 16"
proof -
  have "unat b < 2 ^ 8" using unsigned_less [of b, where ?'a = nat] by simp
  then show ?thesis by simp
qed

lemma set_hexdigest: "set (hexdigest bs) \<subseteq> set ''0123456789abcdef''"
proof (induction bs)
  case Nil
  then show ?case by (simp add: hexdigest_def)
next
  case (Cons b bs)
  have "hex_digit (unat b div 16) \<in> set ''0123456789abcdef''"
    using unat_byte_div by (rule hex_digit_mem)
  moreover have "hex_digit (unat b mod 16) \<in> set ''0123456789abcdef''"
    by (rule hex_digit_mem) simp
  ultimately show ?case using Cons by (simp add: hexdigest_def)
qed

section \<open>Properties of the cache manager\<close>

lemma cache_inv_iff:
  "cache_inv cm \<longleftrightarrow> (\<forall>k. memory_cache cm k = None \<longleftrightarrow> memory_cache_expiry cm k = None)"
  unfolding cache_inv_def set_eq_iff domIff Not_eq_iff by (rule refl)

lemma get_memory_inv:
  "cache_inv cm \<Longrightarrow> get_memory cm t k = Inr (r, cm') \<Longrightarrow> cache_inv cm'"
  by (auto simp: get_memory_def cache_inv_iff split: option.splits if_splits)

lemma get_memory_no_KeyError:
  "cache_inv cm \<Longrightarrow> \<exists>r cm'. get_memory cm t k = Inr (r, cm')"
  by (auto simp: get_memory_def cache_inv_iff split: option.splits if_splits)

lemma use_document_inv:
  "cache_inv cm \<Longrightarrow> use_document cm fb t k i d = (r, cm', fb', evs) \<Longrightarrow> cache_inv cm'"
  by (auto simp: use_document_def cache_inv_iff Let_def split: option.splits if_splits)

lemma firebase_get_inv:
  "cache_inv cm \<Longrightarrow> firebase_get cm fb t k = (r, cm', fb', evs) \<Longrightarrow> cache_inv cm'"
  by (auto simp: firebase_get_def split: option.splits if_splits prod.splits dest: use_document_inv)

lemma get_firebase_inv:
  "cache_inv cm \<Longrightarrow> get_firebase cm fb t k = (r, cm', fb', evs) \<Longrightarrow> cache_inv cm'"
  by (auto simp: get_firebase_def split: if_splits prod.splits sum.splits dest: firebase_get_inv)

lemma get_inv:
  "cache_inv cm \<Longrightarrow> get cm fb t p = Inr (r, cm', fb', evs) \<Longrightarrow> cache_inv cm'"
  by (auto simp: get_def split: sum.splits option.splits prod.splits
      dest: get_memory_inv get_firebase_inv)

lemma set_cache_inv:
  "cache_inv cm \<Longrightarrow> set_cache cm fb t p v = Inr (cm', fb', evs) \<Longrightarrow> cache_inv cm'"
  by (auto simp: set_cache_def cache_inv_iff Let_def split: sum.splits if_splits prod.splits)



lemma get_no_KeyError:
  assumes "cache_inv cm"
  shows "get cm fb t p \<noteq> Inl KeyError"
proof (cases "generate_cache_key p")
  case (Inl e)
  then show ?thesis by (auto simp: get_def dest: generate_cache_key_error)
next
  case (Inr k)
  from assms obtain r cm' where "get_memory cm t k = Inr (r, cm')"
    using get_memory_no_KeyError by blast
  with Inr show ?thesis by (simp add: get_def split: option.splits)
qed




lemma set_cache_result:
  "generate_cache_key p = Inr k \<Longrightarrow>
   \<exists>fb' evs. set_cache cm fb t p v
       = Inr (with_entry cm k v (double_round (t + cache_ttl cm)), fb', evs)"
  by (auto simp: set_cache_def with_entry_def Let_def split: prod.splits sum.splits)


lemma set_cache_disabled:
  "generate_cache_key p = Inr k \<Longrightarrow> \<not> firebase_enabled cm \<Longrightarrow>
   set_cache cm fb t p v = Inr (with_entry cm k v (double_round (t + cache_ttl cm)), fb, [])"
  by (simp add: set_cache_def with_entry_def Let_def)

lemma with_entry_lookup [simp]:
  "memory_cache (with_entry cm k v e) k = Some v"
  "memory_cache_expiry (with_entry cm k v e) k = Some e"
  "firebase_enabled (with_entry cm k v e) = firebase_enabled cm"
  "q4d_lens_enabled (with_entry cm k v e) = q4d_lens_enabled cm"
  by (simp_all add: with_entry_def)

lemma without_entry_lookup [simp]:
  "memory_cache (without_entry cm k) k = None"
  "memory_cache_expiry (without_entry cm k) k = None"
  "firebase_enabled (without_entry cm k) = firebase_enabled cm"
  "q4d_lens_enabled (without_entry cm k) = q4d_lens_enabled cm"
  by (simp_all add: without_entry_def)

subsection \<open>The lookup, case by case\<close>

lemma get_memory_live:
  "memory_cache cm k = Some v \<Longrightarrow> memory_cache_expiry cm k = Some e \<Longrightarrow> t < e \<Longrightarrow>
   get_memory cm t k = Inr (Some v, cm)"
  by (simp add: get_memory_def)

lemma get_memory_miss:
  "memory_miss cm t k cm0 \<Longrightarrow> get_memory cm t k = Inr (None, cm0)"
  by (auto simp: memory_miss_def get_memory_def without_entry_def split: option.splits)

lemma memory_miss_flags:
  "memory_miss cm t k cm0 \<Longrightarrow>
   memory_cache cm0 k = None \<and> firebase_enabled cm0 = firebase_enabled cm
     \<and> q4d_lens_enabled cm0 = q4d_lens_enabled cm"
  by (auto simp: memory_miss_def split: option.splits)

lemma get_live:
  "generate_cache_key p = Inr k \<Longrightarrow> memory_cache cm k = Some v \<Longrightarrow>
   memory_cache_expiry cm k = Some e \<Longrightarrow> t < e \<Longrightarrow> get cm fb t p = Inr (Some v, cm, fb, [])"
  by (simp add: get_def get_memory_live)

lemma get_miss:
  "generate_cache_key p = Inr k \<Longrightarrow> memory_miss cm t k cm0 \<Longrightarrow>
   get cm fb t p = Inr (get_firebase cm0 fb t k)"
  by (simp add: get_def get_memory_miss)

lemma get_firebase_disabled:
  "\<not> firebase_enabled cm \<Longrightarrow> get_firebase cm fb t k = (None, cm, fb, [])"
  by (simp add: get_firebase_def)



lemma get_firebase_absent:
  "firebase_enabled cm \<Longrightarrow> \<not> q4d_lens_enabled cm \<Longrightarrow> \<not> fb_read_raises fb \<Longrightarrow>
   map_of (fb_docs fb) k = None \<Longrightarrow> get_firebase cm fb t k = (None, cm, fb, [DocGet k])"
  by (simp add: get_firebase_def firebase_get_def)

lemma get_firebase_hit:
  "firebase_enabled cm \<Longrightarrow> \<not> q4d_lens_enabled cm \<Longrightarrow> \<not> fb_read_raises fb \<Longrightarrow>
   map_of (fb_docs fb) k = Some d \<Longrightarrow> t < expiry_of d \<Longrightarrow> doc_response d = Some v \<Longrightarrow>
   get_firebase cm fb t k = (Some v, with_entry cm k v (expiry_of d), fb, [DocGet k])"
  by (simp add: get_firebase_def firebase_get_def use_document_def with_entry_def)


lemma get_firebase_expired:
  "firebase_enabled cm \<Longrightarrow> \<not> q4d_lens_enabled cm \<Longrightarrow> \<not> fb_read_raises fb \<Longrightarrow>
   map_of (fb_docs fb) k = Some d \<Longrightarrow> expiry_of d \<le> t \<Longrightarrow> \<not> fb_delete_raises fb \<Longrightarrow>
   get_firebase cm fb t k
     = (None, cm, fb\<lparr>fb_docs := AList.delete k (fb_docs fb)\<rparr>, [DocGet k, DocDelete k])"
  by (simp add: get_firebase_def firebase_get_def use_document_def)


text \<open>Whatever \<^verbatim>\<open>get\<close> returns is held by the memory cache afterwards and has not expired.\<close>

lemma get_firebase_returns_live:
  "get_firebase cm fb t k = (Some v, cm', fb', evs) \<Longrightarrow>
   \<exists>e. memory_cache cm' k = Some v \<and> memory_cache_expiry cm' k = Some e \<and> t < e"
  by (auto simp: get_firebase_def firebase_get_def use_document_def Let_def
      split: if_splits prod.splits sum.splits option.splits)

lemma get_returns_live:
  assumes "generate_cache_key p = Inr k" "get cm fb t p = Inr (Some v, cm', fb', evs)"
  shows "\<exists>e. memory_cache cm' k = Some v \<and> memory_cache_expiry cm' k = Some e \<and> t < e"
proof -
  from assms obtain r0 cm0 where m: "get_memory cm t k = Inr (r0, cm0)"
    by (auto simp: get_def split: sum.splits)
  show ?thesis
  proof (cases r0)
    case None
    with assms m have "get_firebase cm0 fb t k = (Some v, cm', fb', evs)"
      by (simp add: get_def)
    then show ?thesis by (rule get_firebase_returns_live)
  next
    case (Some v0)
    with assms m have "v0 = v" "cm' = cm0" by (simp_all add: get_def)
    with m Some show ?thesis
      by (auto simp: get_memory_def split: option.splits if_splits)
  qed
qed

lemma set_cache_writes:
  "generate_cache_key p = Inr k \<Longrightarrow> firebase_enabled cm \<Longrightarrow> \<not> fb_write_raises fb \<Longrightarrow>
   set_cache cm fb t p v
     = Inr (with_entry cm k v (double_round (t + cache_ttl cm)),
            fb\<lparr>fb_docs := AList.update k
                 \<lparr>doc_prompt = Some p, doc_response = Some v,
                  doc_expiry = Some (double_round (t + cache_ttl cm)), doc_hash_key = Some k,
                  doc_s2_metadata = s2_persistence_enabled cm\<rparr> (fb_docs fb)\<rparr>,
            [TransactionSet k])"
  by (simp add: set_cache_def with_entry_def firebase_set_def Let_def)

lemma map_of_delete_same: "map_of (AList.delete k al) k = None"
  by (simp add: AList.delete_eq map_of_eq_None_iff image_iff)

lemmas get_eval = get_def get_memory_def get_firebase_def firebase_get_def use_document_def
  expiry_of_def init_cache_manager_def Let_def


subsection \<open>Write-through\<close>

text \<open>
  Claim C5, as stated, fails for a small positive time to live: the expiry is the float sum
  of the clock reading and the time to live, and a time to live of \<open>1 / 2 ^ 30\<close> seconds
  added to the clock reading 1700000000 gives 1700000000 again. The entry is stored with an
  expiry that is not after the clock, and the \<^verbatim>\<open>get\<close> that follows at the same clock
  reading deletes it and misses.
\<close>

theorem tiny_ttl_misses_at_once:
  "0 < cache_ttl (init_cache_manager False (1 / 2 ^ 30) False False)
   \<and> set_cache (init_cache_manager False (1 / 2 ^ 30) False False) empty_firebase 1700000000
         (ascii ''summarize: X'') [(''text'', ''Y'')]
       = Inr (with_entry (init_cache_manager False (1 / 2 ^ 30) False False)
                ''64a03532e8c92ba6aa556928612bba5e'' [(''text'', ''Y'')] 1700000000, empty_firebase, [])
   \<and> get (with_entry (init_cache_manager False (1 / 2 ^ 30) False False)
                ''64a03532e8c92ba6aa556928612bba5e'' [(''text'', ''Y'')] 1700000000) empty_firebase 1700000000
         (ascii ''summarize: X'')
       = Inr (None, init_cache_manager False (1 / 2 ^ 30) False False, empty_firebase, [])"
  by (simp add: set_cache_def get_eval with_entry_def summarize_key double_round_tiny_sum)

text \<open>
  Claim C5, amended. After \<^verbatim>\<open>set(P, V)\<close> has completed at the clock reading \<open>t0\<close>, the
  memory cache holds \<open>V\<close> with the expiry \<open>double_round (t0 + cache_ttl)\<close>. A \<^verbatim>\<open>get(P)\<close> at
  any clock reading strictly before that expiry returns \<open>V\<close> from the memory cache: the
  cache manager and the collection are unchanged and the list of durable-tier events is
  empty. This covers the \<^verbatim>\<open>get\<close> at the clock reading \<open>t0\<close> itself whenever \<open>t0\<close> is
  positive and below \<open>cache_ttl * (2 ^ 53 - 1)\<close>. At a clock reading that is not before the
  expiry the entry is not served: \<^verbatim>\<open>get\<close> deletes it and goes on to the durable tier.
\<close>

theorem write_through_get_after_set:
  assumes "set_cache cm fb t0 prompt response = Inr (cm1, fb1, evs)"
  shows "(\<exists>k. generate_cache_key prompt = Inr k
          \<and> cm1 = with_entry cm k response (double_round (t0 + cache_ttl cm))
          \<and> (\<forall>t. double_round (t0 + cache_ttl cm) \<le> t
                \<longrightarrow> get cm1 fb1 t prompt = Inr (get_firebase (without_entry cm1 k) fb1 t k)))
    \<and> (\<forall>t. t < double_round (t0 + cache_ttl cm)
          \<longrightarrow> get cm1 fb1 t prompt = Inr (Some response, cm1, fb1, []))
    \<and> (0 < t0 \<and> t0 < cache_ttl cm * (2 ^ 53 - 1)
          \<longrightarrow> get cm1 fb1 t0 prompt = Inr (Some response, cm1, fb1, []))"
proof -
  from assms obtain k where k: "generate_cache_key prompt = Inr k"
    by (auto simp: set_cache_def split: sum.splits)
  from set_cache_result [OF k, of cm fb t0 response] assms
  have c: "cm1 = with_entry cm k response (double_round (t0 + cache_ttl cm))"
    by auto
  have hit: "get cm1 fb1 t prompt = Inr (Some response, cm1, fb1, [])"
    if "t < double_round (t0 + cache_ttl cm)" for t
    using that by (intro get_live [OF k]) (simp_all add: c)
  have miss: "get cm1 fb1 t prompt = Inr (get_firebase (without_entry cm1 k) fb1 t k)"
    if "double_round (t0 + cache_ttl cm) \<le> t" for t
    using that by (intro get_miss [OF k]) (simp add: memory_miss_def c)
  have "get cm1 fb1 t0 prompt = Inr (Some response, cm1, fb1, [])"
    if "0 < t0" "t0 < cache_ttl cm * (2 ^ 53 - 1)"
    using hit [of t0] double_round_add_gt [OF that] by simp
  with k c hit miss show ?thesis by blast
qed

theorem write_through_get_after_set_witness:
  "set_cache (init_cache_manager True 3600 False False) empty_firebase 1000
       (ascii ''summarize: X'') [(''text'', ''Y'')]
     = Inr (with_entry (init_cache_manager True 3600 False False) ''64a03532e8c92ba6aa556928612bba5e'' [(''text'', ''Y'')] 4600,
            summarize_firebase, [TransactionSet ''64a03532e8c92ba6aa556928612bba5e''])
   \<and> (0::real) < 1000 \<and> (1000::real) < 3600 * (2 ^ 53 - 1)
   \<and> get (with_entry (init_cache_manager True 3600 False False) ''64a03532e8c92ba6aa556928612bba5e'' [(''text'', ''Y'')] 4600)
         summarize_firebase 1000 (ascii ''summarize: X'')
       = Inr (Some [(''text'', ''Y'')],
              with_entry (init_cache_manager True 3600 False False) ''64a03532e8c92ba6aa556928612bba5e'' [(''text'', ''Y'')] 4600,
              summarize_firebase, [])
   \<and> get (with_entry (init_cache_manager True 3600 False False) ''64a03532e8c92ba6aa556928612bba5e'' [(''text'', ''Y'')] 4600)
         summarize_firebase 4599 (ascii ''summarize: X'')
       = Inr (Some [(''text'', ''Y'')],
              with_entry (init_cache_manager True 3600 False False) ''64a03532e8c92ba6aa556928612bba5e'' [(''text'', ''Y'')] 4600,
              summarize_firebase, [])
   \<and> get (with_entry (init_cache_manager True 3600 False False) ''64a03532e8c92ba6aa556928612bba5e'' [(''text'', ''Y'')] 4600)
         summarize_firebase 4600 (ascii ''summarize: X'')
       = Inr (None, init_cache_manager True 3600 False False, empty_firebase,
              [DocGet ''64a03532e8c92ba6aa556928612bba5e'', DocDelete ''64a03532e8c92ba6aa556928612bba5e''])"
proof -
  let ?cm = "init_cache_manager True 3600 False False"
  let ?cm1 = "with_entry ?cm ''64a03532e8c92ba6aa556928612bba5e'' [(''text'', ''Y'')] 4600"
  have s: "set_cache ?cm empty_firebase 1000 (ascii ''summarize: X'') [(''text'', ''Y'')]
     = Inr (?cm1, summarize_firebase, [TransactionSet ''64a03532e8c92ba6aa556928612bba5e''])"
    by (simp add: set_cache_def firebase_set_def summarize_key double_round_4600 with_entry_def
        init_cache_manager_def empty_firebase_def summarize_firebase_def Let_def)
  have e: "double_round (1000 + cache_ttl ?cm) = 4600"
    by (simp add: init_cache_manager_def double_round_4600)
  have t: "(1000::real) < cache_ttl ?cm * (2 ^ 53 - 1)"
    by (simp add: init_cache_manager_def)
  note w = write_through_get_after_set [OF s, unfolded e]
  have a: "get ?cm1 summarize_firebase 1000 (ascii ''summarize: X'')
      = Inr (Some [(''text'', ''Y'')], ?cm1, summarize_firebase, [])"
    using w t by simp
  have b: "get ?cm1 summarize_firebase 4599 (ascii ''summarize: X'')
      = Inr (Some [(''text'', ''Y'')], ?cm1, summarize_firebase, [])"
    using w by simp
  have "get ?cm1 summarize_firebase 4600 (ascii ''summarize: X'')
      = Inr (get_firebase (without_entry ?cm1 ''64a03532e8c92ba6aa556928612bba5e'') summarize_firebase 4600 ''64a03532e8c92ba6aa556928612bba5e'')"
    using w summarize_key by auto
  also have "\<dots> = Inr (None, ?cm, empty_firebase, [DocGet ''64a03532e8c92ba6aa556928612bba5e'', DocDelete ''64a03532e8c92ba6aa556928612bba5e''])"
    by (simp add: get_eval with_entry_def without_entry_def summarize_firebase_def
        empty_firebase_def)
  finally show ?thesis
    using s a b by simp
qed


subsection \<open>The two dictionaries of the memory cache\<close>

text \<open>
  Claim C10. \<^verbatim>\<open>memory_cache\<close> and \<^verbatim>\<open>memory_cache_expiry\<close> hold the same keys: a fresh
  cache manager satisfies this, and every completed \<^verbatim>\<open>get\<close> (a live hit, the removal of an
  expired entry, the population from a Firestore hit) and every completed \<^verbatim>\<open>set\<close>
  preserves it; under it the lookup \<^verbatim>\<open>memory_cache_expiry[cache_key]\<close> of \<^verbatim>\<open>get\<close> never
  raises \<^verbatim>\<open>KeyError\<close>.
\<close>

theorem memory_cache_keys_agree:
  "cache_inv (init_cache_manager fe ttl s2 q4d)
   \<and> (cache_inv cm \<longrightarrow>
        (\<forall>r cm' fb' evs. get cm fb t prompt = Inr (r, cm', fb', evs) \<longrightarrow> cache_inv cm')
      \<and> (\<forall>cm' fb' evs. set_cache cm fb t prompt response = Inr (cm', fb', evs) \<longrightarrow> cache_inv cm')
      \<and> get cm fb t prompt \<noteq> Inl KeyError)"
proof -
  have a: "cache_inv (init_cache_manager fe ttl s2 q4d)"
    by (simp add: cache_inv_def init_cache_manager_def)
  have b: "\<forall>r cm' fb' evs. get cm fb t prompt = Inr (r, cm', fb', evs) \<longrightarrow> cache_inv cm'"
    if "cache_inv cm"
    using get_inv [OF that] by blast
  have c: "\<forall>cm' fb' evs. set_cache cm fb t prompt response = Inr (cm', fb', evs) \<longrightarrow> cache_inv cm'"
    if "cache_inv cm"
    using set_cache_inv [OF that] by blast
  have d: "get cm fb t prompt \<noteq> Inl KeyError" if "cache_inv cm"
    using get_no_KeyError [OF that] .
  from a b c d show ?thesis by blast
qed

theorem memory_cache_keys_agree_witness:
  "cache_inv (init_cache_manager True 3600 False False)
   \<and> (case set_cache (init_cache_manager True 3600 False False) empty_firebase 1000
          (ascii ''summarize: X'') [(''text'', ''Y'')] of
        Inl e \<Rightarrow> False
      | Inr (cm1, fb1, evs) \<Rightarrow>
          dom (memory_cache cm1) = {''64a03532e8c92ba6aa556928612bba5e''} \<and> dom (memory_cache_expiry cm1) = {''64a03532e8c92ba6aa556928612bba5e''}
          \<and> cache_inv cm1
          \<and> (case get cm1 fb1 5000 (ascii ''summarize: X'') of
                Inl e \<Rightarrow> False
              | Inr (r, cm2, fb2, evs2) \<Rightarrow>
                  r = None \<and> memory_cache cm2 ''64a03532e8c92ba6aa556928612bba5e'' = None
                  \<and> memory_cache_expiry cm2 ''64a03532e8c92ba6aa556928612bba5e'' = None
                  \<and> cache_inv cm2))"
proof -
  let ?cm0 = "init_cache_manager True 3600 False False"
  have i: "cache_inv ?cm0"
    using memory_cache_keys_agree [of True 3600 False False] by simp
  obtain cm1 fb1 evs where s: "set_cache ?cm0 empty_firebase 1000 (ascii ''summarize: X'')
      [(''text'', ''Y'')] = Inr (cm1, fb1, evs)"
    and d1: "dom (memory_cache cm1) = {''64a03532e8c92ba6aa556928612bba5e''}" "dom (memory_cache_expiry cm1) = {''64a03532e8c92ba6aa556928612bba5e''}"
    and f1: "fb_docs fb1 = [(''64a03532e8c92ba6aa556928612bba5e'',
             \<lparr>doc_prompt = Some (ascii ''summarize: X''), doc_response = Some [(''text'', ''Y'')],
              doc_expiry = Some 4600, doc_hash_key = Some ''64a03532e8c92ba6aa556928612bba5e'', doc_s2_metadata = False\<rparr>)]"
       "\<not> fb_read_raises fb1" "\<not> fb_delete_raises fb1"
    and c1: "firebase_enabled cm1" "\<not> q4d_lens_enabled cm1"
      "memory_cache cm1 ''64a03532e8c92ba6aa556928612bba5e'' = Some [(''text'', ''Y'')]"
      "memory_cache_expiry cm1 ''64a03532e8c92ba6aa556928612bba5e'' = Some 4600"
    by (simp add: set_cache_def summarize_key init_cache_manager_def empty_firebase_def
        firebase_set_def double_round_4600 Let_def)
  have i1: "cache_inv cm1"
    using memory_cache_keys_agree [of True 3600 False False ?cm0 empty_firebase 1000
        "ascii ''summarize: X''" "[(''text'', ''Y'')]"] i s by simp
  obtain r cm2 fb2 evs2 where g: "get cm1 fb1 5000 (ascii ''summarize: X'') = Inr (r, cm2, fb2, evs2)"
    and d2: "r = None" "memory_cache cm2 ''64a03532e8c92ba6aa556928612bba5e'' = None"
      "memory_cache_expiry cm2 ''64a03532e8c92ba6aa556928612bba5e'' = None"
    using d1 f1 c1
    by (simp add: get_def summarize_key get_memory_def get_firebase_def firebase_get_def
        use_document_def expiry_of_def Let_def)
  have i2: "cache_inv cm2"
    using memory_cache_keys_agree [of True 3600 False False cm1 fb1 5000
        "ascii ''summarize: X''" "[(''text'', ''Y'')]"] i1 g by simp
  show ?thesis
    using i s d1 i1 g d2 i2 by simp
qed


subsection \<open>Failures of the durable tier\<close>





subsection \<open>The digest of the key\<close>

text \<open>
  Claim C7, as stated, fails: the key is an MD5 digest, and MD5 is not collision resistant.
  The two prompts below are printable ASCII texts of 72 characters that differ in one
  character and have the same key, so the response cached for the first is served for
  the second.
\<close>

theorem md5_key_collision:
  "ascii ''TEXTCOLLBYfGiJUETHQ4hAcKSMd5zYpgqf1YRDhkmxHkhPWptrkoyz28wnI9V0aHeAuaKnak'' \<noteq> ascii ''TEXTCOLLBYfGiJUETHQ4hEcKSMd5zYpgqf1YRDhkmxHkhPWptrkoyz28wnI9V0aHeAuaKnak''
   \<and> generate_cache_key (ascii ''TEXTCOLLBYfGiJUETHQ4hAcKSMd5zYpgqf1YRDhkmxHkhPWptrkoyz28wnI9V0aHeAuaKnak'') = Inr ''faad49866e9498fc1719f5289e7a0269''
   \<and> generate_cache_key (ascii ''TEXTCOLLBYfGiJUETHQ4hEcKSMd5zYpgqf1YRDhkmxHkhPWptrkoyz28wnI9V0aHeAuaKnak'') = Inr ''faad49866e9498fc1719f5289e7a0269''
   \<and> (case set_cache (init_cache_manager False 3600 False False) empty_firebase 1000
            (ascii ''TEXTCOLLBYfGiJUETHQ4hAcKSMd5zYpgqf1YRDhkmxHkhPWptrkoyz28wnI9V0aHeAuaKnak'') [(''text'', ''answer to the first prompt'')] of
         Inl e \<Rightarrow> False
       | Inr (cm1, fb1, evs) \<Rightarrow>
           get cm1 fb1 1000 (ascii ''TEXTCOLLBYfGiJUETHQ4hEcKSMd5zYpgqf1YRDhkmxHkhPWptrkoyz28wnI9V0aHeAuaKnak'') =
             Inr (Some [(''text'', ''answer to the first prompt'')], cm1, fb1, []))"
proof -
  have n: "ascii ''TEXTCOLLBYfGiJUETHQ4hAcKSMd5zYpgqf1YRDhkmxHkhPWptrkoyz28wnI9V0aHeAuaKnak'' \<noteq> ascii ''TEXTCOLLBYfGiJUETHQ4hEcKSMd5zYpgqf1YRDhkmxHkhPWptrkoyz28wnI9V0aHeAuaKnak''"
    by (simp add: ascii_def)
  obtain cm1 fb1 evs where s: "set_cache (init_cache_manager False 3600 False False) empty_firebase
      1000 (ascii ''TEXTCOLLBYfGiJUETHQ4hAcKSMd5zYpgqf1YRDhkmxHkhPWptrkoyz28wnI9V0aHeAuaKnak'') [(''text'', ''answer to the first prompt'')] = Inr (cm1, fb1, evs)"
    and m: "memory_cache cm1 ''faad49866e9498fc1719f5289e7a0269'' = Some [(''text'', ''answer to the first prompt'')]"
      "memory_cache_expiry cm1 ''faad49866e9498fc1719f5289e7a0269'' = Some 4600"
    by (simp add: set_cache_def text_a_key init_cache_manager_def Let_def double_round_4600)
  have g: "get cm1 fb1 1000 (ascii ''TEXTCOLLBYfGiJUETHQ4hEcKSMd5zYpgqf1YRDhkmxHkhPWptrkoyz28wnI9V0aHeAuaKnak'') =
      Inr (Some [(''text'', ''answer to the first prompt'')], cm1, fb1, [])"
    using m by (simp add: get_def text_b_key get_memory_def)
  show ?thesis
    using n s g text_a_key text_b_key by simp
qed

text \<open>
  Claim C7, amended. The key is a function of the UTF-8 encoding of the payload alone: it
  is the MD5 digest of the encoding (128 bits), written as 32 lowercase hexadecimal digits;
  two payloads with the same encoding have the same key. Nothing is claimed about collision
  resistance.
\<close>

theorem cache_key_is_md5_hex:
  assumes "generate_cache_key prompt = Inr k"
  shows "(\<exists>bs. encode prompt = Inr bs \<and> k = hexdigest (md5 bs))
    \<and> length k = 32 \<and> set k \<subseteq> set ''0123456789abcdef''
    \<and> (\<forall>q. encode q = encode prompt \<longrightarrow> generate_cache_key q = Inr k)"
proof -
  from assms obtain bs where bs: "encode prompt = Inr bs" "k = hexdigest (md5 bs)"
    by (auto simp: generate_cache_key_def split: sum.splits)
  have "length k = 32" using bs by (simp add: length_hexdigest length_md5)
  moreover have "set k \<subseteq> set ''0123456789abcdef''" using bs set_hexdigest by blast
  moreover have "\<forall>q. encode q = encode prompt \<longrightarrow> generate_cache_key q = Inr k"
    using bs by (simp add: generate_cache_key_def)
  ultimately show ?thesis using bs by blast
qed

theorem cache_key_is_md5_hex_witness:
  "generate_cache_key (ascii ''summarize: X'') = Inr ''64a03532e8c92ba6aa556928612bba5e''
   \<and> length ''64a03532e8c92ba6aa556928612bba5e'' = 32
   \<and> set ''64a03532e8c92ba6aa556928612bba5e'' \<subseteq> set ''0123456789abcdef''
   \<and> encode (ascii ''summarize: X'') = Inr [115, 117, 109, 109, 97, 114, 105, 122, 101, 58, 32, 88]"
proof -
  have "encode (ascii ''summarize: X'') = Inr [115, 117, 109, 109, 97, 114, 105, 122, 101, 58, 32, 88]"
    by (simp add: ascii_def utf8_char_def)
  moreover from cache_key_is_md5_hex [OF summarize_key]
  have "length ''64a03532e8c92ba6aa556928612bba5e'' = 32"
    "set ''64a03532e8c92ba6aa556928612bba5e'' \<subseteq> set ''0123456789abcdef''"
    by blast+
  ultimately show ?thesis
    using summarize_key by blast
qed


subsection \<open>Payloads that cannot be encoded\<close>

text \<open>
  Claim C8, as stated, fails: for a prompt with a lone surrogate the exception of
  \<^verbatim>\<open>prompt.encode()\<close> leaves \<^verbatim>\<open>_generate_cache_key\<close>, \<^verbatim>\<open>get\<close> and \<^verbatim>\<open>set\<close> as it
  is, a \<^verbatim>\<open>UnicodeEncodeError\<close>; it is not turned into \<^verbatim>\<open>InvalidPayload\<close>.
\<close>

theorem lone_surrogate_escapes:
  "generate_cache_key [0xD800] = Inl UnicodeEncodeError
   \<and> generate_cache_key [0xD800] \<noteq> Inl InvalidPayload
   \<and> get (init_cache_manager True 3600 False False) empty_firebase 1000 [0xD800]
       = Inl UnicodeEncodeError
   \<and> set_cache (init_cache_manager True 3600 False False) empty_firebase 1000 [0xD800]
         [(''text'', ''Y'')] = Inl UnicodeEncodeError"
  by (simp add: generate_cache_key_def utf8_char_def surrogate_def get_def set_cache_def)

text \<open>
  Claim C8, amended. The key derivation returns a key for every prompt without a surrogate
  code point. For a prompt with a surrogate code point it raises \<^verbatim>\<open>UnicodeEncodeError\<close>,
  which also leaves \<^verbatim>\<open>get\<close> and \<^verbatim>\<open>set\<close> uncaught; it never raises \<^verbatim>\<open>InvalidPayload\<close>.
\<close>

theorem key_derivation_outcome:
  "(if \<exists>c \<in> set prompt. surrogate c
    then generate_cache_key prompt = Inl UnicodeEncodeError
       \<and> get cm fb t prompt = Inl UnicodeEncodeError
       \<and> set_cache cm fb t prompt response = Inl UnicodeEncodeError
    else \<exists>k. generate_cache_key prompt = Inr k)
   \<and> generate_cache_key prompt \<noteq> Inl InvalidPayload"
proof -
  have "generate_cache_key prompt \<noteq> Inl InvalidPayload"
    using generate_cache_key_error [of prompt InvalidPayload] by auto
  moreover have "generate_cache_key prompt = Inl UnicodeEncodeError
       \<and> get cm fb t prompt = Inl UnicodeEncodeError
       \<and> set_cache cm fb t prompt response = Inl UnicodeEncodeError"
    if "\<exists>c \<in> set prompt. surrogate c"
    using generate_cache_key_surrogate [OF that] by (simp add: get_def set_cache_def)
  moreover have "\<exists>k. generate_cache_key prompt = Inr k" if "\<not> (\<exists>c \<in> set prompt. surrogate c)"
    using generate_cache_key_defined [OF that] .
  ultimately show ?thesis by simp
qed

theorem key_derivation_outcome_witness:
  "(\<exists>c \<in> set [104, 0xDC00]. surrogate c)
   \<and> generate_cache_key [104, 0xDC00] = Inl UnicodeEncodeError
   \<and> get (init_cache_manager False 3600 False False) empty_firebase 1000 [104, 0xDC00]
       = Inl UnicodeEncodeError
   \<and> \<not> (\<exists>c \<in> set [0xE9, 0x20AC, 0x1F600]. surrogate c)
   \<and> (\<exists>k. generate_cache_key [0xE9, 0x20AC, 0x1F600] = Inr k)
   \<and> encode [0xE9, 0x20AC, 0x1F600] = Inr [195, 169, 226, 130, 172, 240, 159, 152, 128]"
proof -
  have a: "\<exists>c \<in> set [104, 0xDC00]. surrogate c" by (simp add: surrogate_def)
  have b: "\<not> (\<exists>c \<in> set [0xE9, 0x20AC, 0x1F600]. surrogate c)" by (simp add: surrogate_def)
  have c: "encode [0xE9, 0x20AC, 0x1F600] = Inr [195, 169, 226, 130, 172, 240, 159, 152, 128]"
    by (simp add: utf8_char_def surrogate_def)
  show ?thesis
    using a b c
      key_derivation_outcome [of "[104, 0xDC00]" "init_cache_manager False 3600 False False"
        empty_firebase 1000 "[]"]
      key_derivation_outcome [of "[0xE9, 0x20AC, 0x1F600]" "init_cache_manager False 3600 False False"
        empty_firebase 1000 "[]"]
    by simp
qed


subsection \<open>The Q4D lens\<close>

text \<open>
  Claim C6 fails on the code: the Q4D branch calls \<^verbatim>\<open>optimize_query_lens\<close> on the query, a
  method the query does not have, so the branch raises \<^verbatim>\<open>AttributeError\<close> inside the
  \<^verbatim>\<open>try\<close> block before the collection is read, and \<^verbatim>\<open>get\<close> logs a warning and returns
  \<^verbatim>\<open>None\<close>. For the live document that \<^verbatim>\<open>set\<close> wrote for the prompt \<^verbatim>\<open>summarize: X\<close>,
  the standard branch returns the cached response and the Q4D branch returns \<^verbatim>\<open>None\<close>.
\<close>

theorem q4d_lens_misses_live_document:
  "set_cache (init_cache_manager True 3600 False True) empty_firebase 1000
       (ascii ''summarize: X'') [(''text'', ''Y'')]
     = Inr (with_entry (init_cache_manager True 3600 False True) ''64a03532e8c92ba6aa556928612bba5e'' [(''text'', ''Y'')] 4600,
          summarize_firebase, [TransactionSet ''64a03532e8c92ba6aa556928612bba5e''])
   \<and> get (init_cache_manager True 3600 False False) summarize_firebase 1000
       (ascii ''summarize: X'')
     = Inr (Some [(''text'', ''Y'')],
          with_entry (init_cache_manager True 3600 False False) ''64a03532e8c92ba6aa556928612bba5e'' [(''text'', ''Y'')] 4600,
          summarize_firebase, [DocGet ''64a03532e8c92ba6aa556928612bba5e''])
   \<and> get (init_cache_manager True 3600 False True) summarize_firebase 1000
       (ascii ''summarize: X'')
     = Inr (None, init_cache_manager True 3600 False True, summarize_firebase,
          [Warning AttributeError])"
  by (simp add: get_eval set_cache_def firebase_set_def with_entry_def summarize_key
      summarize_firebase_def empty_firebase_def double_round_4600)


subsection \<open>Expiry\<close>

text \<open>
  Claim C2, as stated, fails where it says that \<^verbatim>\<open>get\<close> returns absent whenever it finds
  an expired entry: after the removal of an expired entry of the memory cache \<^verbatim>\<open>get\<close>
  goes on to the durable tier. Below, a first cache manager stores a response at time 1000
  (expiry 4600), a second one sharing the collection stores another at time 1800 (expiry
  5400); at time 5000 the first manager finds its own entry expired and returns the
  document of the second.
\<close>

theorem expired_entry_served_from_durable_tier:
  "(case set_cache (init_cache_manager True 3600 False False) empty_firebase 1000
          (ascii ''summarize: X'') [(''text'', ''first'')] of
      Inl e \<Rightarrow> False
    | Inr (cm_a, fb1, evs1) \<Rightarrow>
        (case set_cache (init_cache_manager True 3600 False False) fb1 1800
                (ascii ''summarize: X'') [(''text'', ''second'')] of
           Inl e \<Rightarrow> False
         | Inr (cm_b, fb2, evs2) \<Rightarrow>
             memory_cache cm_a ''64a03532e8c92ba6aa556928612bba5e'' = Some [(''text'', ''first'')]
             \<and> memory_cache_expiry cm_a ''64a03532e8c92ba6aa556928612bba5e'' = Some 4600
             \<and> (case get cm_a fb2 5000 (ascii ''summarize: X'') of
                   Inl e \<Rightarrow> False
                 | Inr (r, cm', fb', evs) \<Rightarrow>
                     r = Some [(''text'', ''second'')]
                     \<and> evs = [DocGet ''64a03532e8c92ba6aa556928612bba5e'']
                     \<and> memory_cache_expiry cm' ''64a03532e8c92ba6aa556928612bba5e'' = Some 5400)))"
  by (simp add: set_cache_def firebase_set_def get_eval summarize_key empty_firebase_def
      double_round_4600 double_round_5400)

text \<open>
  Claim C2, amended. For a prompt with key \<open>k\<close> and a \<^verbatim>\<open>get\<close> at time \<open>t\<close>. An entry of the
  memory cache with \<open>t\<close> strictly before its expiry is returned, with no change of state and
  no durable-tier operation. An entry of the memory cache whose expiry has passed
  (\<open>expiry \<le> t\<close>) is deleted from both dictionaries at once, and \<^verbatim>\<open>get\<close> goes on to the
  durable tier, as it does when the memory cache has no entry: it returns absent when the
  durable tier is disabled; on the standard lookup path, no call of the Firestore client
  raising, it returns absent when the collection has no document for \<open>k\<close>; it returns the
  response of a document with \<open>t\<close> strictly before its expiry, and records response and
  expiry in the memory cache; it deletes a document whose expiry has passed from the
  collection and returns absent. Every response returned, from either tier, is held by the
  memory cache afterwards with an expiry strictly after \<open>t\<close>. \<^verbatim>\<open>set\<close> at time \<open>t\<close> stores the
  response with the expiry \<open>t + cache_ttl\<close> (the sum of the two doubles) in the memory cache
  and, the durable tier enabled and the write not raising, in the document of \<open>k\<close>.
\<close>

theorem ttl_expiry:
  assumes "generate_cache_key prompt = Inr k"
  shows "(\<forall>v e. memory_cache cm k = Some v \<and> memory_cache_expiry cm k = Some e \<and> t < e
            \<longrightarrow> get cm fb t prompt = Inr (Some v, cm, fb, []))
    \<and> (\<forall>v e. memory_cache cm k = Some v \<and> memory_cache_expiry cm k = Some e \<and> e \<le> t
            \<longrightarrow> memory_miss cm t k (without_entry cm k))
    \<and> (memory_cache cm k = None \<longrightarrow> memory_miss cm t k cm)
    \<and> (\<forall>cm0. memory_miss cm t k cm0 \<longrightarrow>
          memory_cache cm0 k = None
        \<and> (\<not> firebase_enabled cm \<longrightarrow> get cm fb t prompt = Inr (None, cm0, fb, []))
        \<and> (firebase_enabled cm \<and> \<not> q4d_lens_enabled cm \<and> \<not> fb_read_raises fb \<longrightarrow>
              (map_of (fb_docs fb) k = None \<longrightarrow>
                 get cm fb t prompt = Inr (None, cm0, fb, [DocGet k]))
            \<and> (\<forall>d v. map_of (fb_docs fb) k = Some d \<and> t < expiry_of d
                      \<and> doc_response d = Some v \<longrightarrow>
                 get cm fb t prompt
                   = Inr (Some v, with_entry cm0 k v (expiry_of d), fb, [DocGet k]))
            \<and> (\<forall>d. map_of (fb_docs fb) k = Some d \<and> expiry_of d \<le> t
                    \<and> \<not> fb_delete_raises fb \<longrightarrow>
                 get cm fb t prompt
                   = Inr (None, cm0, fb\<lparr>fb_docs := AList.delete k (fb_docs fb)\<rparr>,
                          [DocGet k, DocDelete k])
                 \<and> map_of (AList.delete k (fb_docs fb)) k = None)))
    \<and> (\<forall>v cm' fb' evs. get cm fb t prompt = Inr (Some v, cm', fb', evs) \<longrightarrow>
          (\<exists>e. memory_cache cm' k = Some v \<and> memory_cache_expiry cm' k = Some e \<and> t < e))
    \<and> (\<exists>fb' evs. set_cache cm fb t prompt response
          = Inr (with_entry cm k response (double_round (t + cache_ttl cm)), fb', evs))
    \<and> (firebase_enabled cm \<and> \<not> fb_write_raises fb \<longrightarrow>
          set_cache cm fb t prompt response
            = Inr (with_entry cm k response (double_round (t + cache_ttl cm)),
                   fb\<lparr>fb_docs := AList.update k
                        \<lparr>doc_prompt = Some prompt, doc_response = Some response,
                         doc_expiry = Some (double_round (t + cache_ttl cm)),
                         doc_hash_key = Some k,
                         doc_s2_metadata = s2_persistence_enabled cm\<rparr> (fb_docs fb)\<rparr>,
                   [TransactionSet k]))"
proof -
  note k = assms
  have a: "\<forall>v e. memory_cache cm k = Some v \<and> memory_cache_expiry cm k = Some e \<and> t < e
            \<longrightarrow> get cm fb t prompt = Inr (Some v, cm, fb, [])"
    using get_live [OF k] by blast
  have b: "\<forall>v e. memory_cache cm k = Some v \<and> memory_cache_expiry cm k = Some e \<and> e \<le> t
            \<longrightarrow> memory_miss cm t k (without_entry cm k)"
    by (simp add: memory_miss_def)
  have c: "memory_cache cm k = None \<longrightarrow> memory_miss cm t k cm"
    by (simp add: memory_miss_def)
  have d: "memory_cache cm0 k = None
        \<and> (\<not> firebase_enabled cm \<longrightarrow> get cm fb t prompt = Inr (None, cm0, fb, []))
        \<and> (firebase_enabled cm \<and> \<not> q4d_lens_enabled cm \<and> \<not> fb_read_raises fb \<longrightarrow>
              (map_of (fb_docs fb) k = None \<longrightarrow>
                 get cm fb t prompt = Inr (None, cm0, fb, [DocGet k]))
            \<and> (\<forall>d v. map_of (fb_docs fb) k = Some d \<and> t < expiry_of d
                      \<and> doc_response d = Some v \<longrightarrow>
                 get cm fb t prompt
                   = Inr (Some v, with_entry cm0 k v (expiry_of d), fb, [DocGet k]))
            \<and> (\<forall>d. map_of (fb_docs fb) k = Some d \<and> expiry_of d \<le> t
                    \<and> \<not> fb_delete_raises fb \<longrightarrow>
                 get cm fb t prompt
                   = Inr (None, cm0, fb\<lparr>fb_docs := AList.delete k (fb_docs fb)\<rparr>,
                          [DocGet k, DocDelete k])
                 \<and> map_of (AList.delete k (fb_docs fb)) k = None))"
    if m: "memory_miss cm t k cm0" for cm0
  proof -
    have g: "get cm fb t prompt = Inr (get_firebase cm0 fb t k)"
      using get_miss [OF k m] .
    from memory_miss_flags [OF m]
    have f: "memory_cache cm0 k = None" "firebase_enabled cm0 = firebase_enabled cm"
      "q4d_lens_enabled cm0 = q4d_lens_enabled cm" by simp_all
    have d1: "\<not> firebase_enabled cm \<longrightarrow> get cm fb t prompt = Inr (None, cm0, fb, [])"
      using f g by (simp add: get_firebase_disabled)
    have d2: "get cm fb t prompt = Inr (None, cm0, fb, [DocGet k])"
      if "firebase_enabled cm \<and> \<not> q4d_lens_enabled cm \<and> \<not> fb_read_raises fb"
        "map_of (fb_docs fb) k = None"
      using that f g by (simp add: get_firebase_absent)
    have d3: "get cm fb t prompt = Inr (Some v, with_entry cm0 k v (expiry_of d), fb, [DocGet k])"
      if "firebase_enabled cm \<and> \<not> q4d_lens_enabled cm \<and> \<not> fb_read_raises fb"
        "map_of (fb_docs fb) k = Some d \<and> t < expiry_of d \<and> doc_response d = Some v" for d v
      using that f g by (simp add: get_firebase_hit)
    have d4: "get cm fb t prompt
                   = Inr (None, cm0, fb\<lparr>fb_docs := AList.delete k (fb_docs fb)\<rparr>,
                          [DocGet k, DocDelete k])
                 \<and> map_of (AList.delete k (fb_docs fb)) k = None"
      if "firebase_enabled cm \<and> \<not> q4d_lens_enabled cm \<and> \<not> fb_read_raises fb"
        "map_of (fb_docs fb) k = Some d \<and> expiry_of d \<le> t \<and> \<not> fb_delete_raises fb" for d
      using that f g by (simp add: get_firebase_expired map_of_delete_same)
    from f(1) d1 d2 d3 d4 show ?thesis by blast
  qed
  have e: "\<forall>v cm' fb' evs. get cm fb t prompt = Inr (Some v, cm', fb', evs) \<longrightarrow>
          (\<exists>e. memory_cache cm' k = Some v \<and> memory_cache_expiry cm' k = Some e \<and> t < e)"
    using get_returns_live [OF k] by blast
  have f: "\<exists>fb' evs. set_cache cm fb t prompt response
          = Inr (with_entry cm k response (double_round (t + cache_ttl cm)), fb', evs)"
    using set_cache_result [OF k] .
  have g: "firebase_enabled cm \<and> \<not> fb_write_raises fb \<longrightarrow>
          set_cache cm fb t prompt response
            = Inr (with_entry cm k response (double_round (t + cache_ttl cm)),
                   fb\<lparr>fb_docs := AList.update k
                        \<lparr>doc_prompt = Some prompt, doc_response = Some response,
                         doc_expiry = Some (double_round (t + cache_ttl cm)),
                         doc_hash_key = Some k,
                         doc_s2_metadata = s2_persistence_enabled cm\<rparr> (fb_docs fb)\<rparr>,
                   [TransactionSet k])"
    using set_cache_writes [OF k] by simp
  from a b c d e f g show ?thesis by blast
qed

theorem ttl_expiry_witness:
  "generate_cache_key (ascii ''summarize: X'') = Inr ''64a03532e8c92ba6aa556928612bba5e''
   \<and> get (with_entry (init_cache_manager False 3600 False False) ''64a03532e8c92ba6aa556928612bba5e'' [(''text'', ''Y'')] 4600)
         empty_firebase 4599 (ascii ''summarize: X'')
     = Inr (Some [(''text'', ''Y'')],
          with_entry (init_cache_manager False 3600 False False) ''64a03532e8c92ba6aa556928612bba5e'' [(''text'', ''Y'')] 4600,
          empty_firebase, [])
   \<and> get (with_entry (init_cache_manager False 3600 False False) ''64a03532e8c92ba6aa556928612bba5e'' [(''text'', ''Y'')] 4600)
         empty_firebase 4600 (ascii ''summarize: X'')
     = Inr (None,
          without_entry
            (with_entry (init_cache_manager False 3600 False False) ''64a03532e8c92ba6aa556928612bba5e'' [(''text'', ''Y'')] 4600)
            ''64a03532e8c92ba6aa556928612bba5e'',
          empty_firebase, [])
   \<and> get (init_cache_manager True 3600 False False) empty_firebase 1000 (ascii ''summarize: X'')
     = Inr (None, init_cache_manager True 3600 False False, empty_firebase, [DocGet ''64a03532e8c92ba6aa556928612bba5e''])
   \<and> get (init_cache_manager True 3600 False False) summarize_firebase 4599
         (ascii ''summarize: X'')
     = Inr (Some [(''text'', ''Y'')],
          with_entry (init_cache_manager True 3600 False False) ''64a03532e8c92ba6aa556928612bba5e'' [(''text'', ''Y'')] 4600,
          summarize_firebase, [DocGet ''64a03532e8c92ba6aa556928612bba5e''])
   \<and> get (init_cache_manager True 3600 False False) summarize_firebase 4600
         (ascii ''summarize: X'')
     = Inr (None, init_cache_manager True 3600 False False, empty_firebase,
          [DocGet ''64a03532e8c92ba6aa556928612bba5e'', DocDelete ''64a03532e8c92ba6aa556928612bba5e''])
   \<and> set_cache (init_cache_manager True 3600 False False) empty_firebase 1000
         (ascii ''summarize: X'') [(''text'', ''Y'')]
     = Inr (with_entry (init_cache_manager True 3600 False False) ''64a03532e8c92ba6aa556928612bba5e'' [(''text'', ''Y'')] 4600,
          summarize_firebase, [TransactionSet ''64a03532e8c92ba6aa556928612bba5e''])"
proof -
  let ?ci = "init_cache_manager False 3600 False False"
  let ?cm0 = "init_cache_manager True 3600 False False"
  let ?cm1 = "with_entry ?ci ''64a03532e8c92ba6aa556928612bba5e'' [(''text'', ''Y'')] 4600"
  let ?p = "ascii ''summarize: X''"
  let ?k = "''64a03532e8c92ba6aa556928612bba5e''"
  let ?d = "\<lparr>doc_prompt = Some ?p, doc_response = Some [(''text'', ''Y'')],
         doc_expiry = Some 4600, doc_hash_key = Some ?k, doc_s2_metadata = False\<rparr>"
  have m1: "memory_cache ?cm1 ?k = Some [(''text'', ''Y'')]" "memory_cache_expiry ?cm1 ?k = Some 4600"
    "\<not> firebase_enabled ?cm1"
    by (simp_all add: init_cache_manager_def)
  have m0: "memory_cache ?cm0 ?k = None" "firebase_enabled ?cm0" "\<not> q4d_lens_enabled ?cm0"
    "cache_ttl ?cm0 = 3600" "\<not> s2_persistence_enabled ?cm0"
    by (simp_all add: init_cache_manager_def)
  have fe: "\<not> fb_read_raises empty_firebase" "map_of (fb_docs empty_firebase) ?k = None"
    "\<not> fb_write_raises empty_firebase"
    by (simp_all add: empty_firebase_def)
  have fs: "\<not> fb_read_raises summarize_firebase" "\<not> fb_delete_raises summarize_firebase"
    "map_of (fb_docs summarize_firebase) ?k = Some ?d"
    by (simp_all add: summarize_firebase_def)
  have x: "expiry_of ?d = 4600" "doc_response ?d = Some [(''text'', ''Y'')]"
    by (simp_all add: expiry_of_def)
  have del: "summarize_firebase\<lparr>fb_docs := AList.delete ?k (fb_docs summarize_firebase)\<rparr>
      = empty_firebase"
    by (simp add: summarize_firebase_def empty_firebase_def AList.delete_eq)
  have upd: "empty_firebase\<lparr>fb_docs := AList.update ?k ?d (fb_docs empty_firebase)\<rparr>
      = summarize_firebase"
    by (simp add: summarize_firebase_def empty_firebase_def)
  have g1: "get ?cm1 empty_firebase 4599 ?p = Inr (Some [(''text'', ''Y'')], ?cm1, empty_firebase, [])"
    using ttl_expiry [OF summarize_key, where cm = ?cm1 and fb = empty_firebase and t = 4599] m1
    by simp
  have g2: "get ?cm1 empty_firebase 4600 ?p
      = Inr (None, without_entry ?cm1 ?k, empty_firebase, [])"
    using ttl_expiry [OF summarize_key, where cm = ?cm1 and fb = empty_firebase and t = 4600] m1
    by simp
  have g3: "get ?cm0 empty_firebase 1000 ?p = Inr (None, ?cm0, empty_firebase, [DocGet ?k])"
    using ttl_expiry [OF summarize_key, where cm = ?cm0 and fb = empty_firebase and t = 1000]
      m0 fe by simp
  have g4: "get ?cm0 summarize_firebase 4599 ?p
      = Inr (Some [(''text'', ''Y'')], with_entry ?cm0 ?k [(''text'', ''Y'')] 4600,
          summarize_firebase, [DocGet ?k])"
    using ttl_expiry [OF summarize_key, where cm = ?cm0 and fb = summarize_firebase and t = 4599]
      m0 fs x by simp
  have g5: "get ?cm0 summarize_firebase 4600 ?p
      = Inr (None, ?cm0, empty_firebase, [DocGet ?k, DocDelete ?k])"
    using ttl_expiry [OF summarize_key, where cm = ?cm0 and fb = summarize_firebase and t = 4600]
      m0 fs x del by simp
  have e: "double_round (1000 + cache_ttl ?cm0) = 4600"
    by (simp add: m0 double_round_4600)
  have s: "set_cache ?cm0 empty_firebase 1000 ?p [(''text'', ''Y'')]
      = Inr (with_entry ?cm0 ?k [(''text'', ''Y'')] 4600, summarize_firebase, [TransactionSet ?k])"
    using ttl_expiry [OF summarize_key, where cm = ?cm0 and fb = empty_firebase and t = 1000
        and response = "[(''text'', ''Y'')]"] m0 fe upd
    unfolding e by simp
  show ?thesis
    using summarize_key g1 g2 g3 g4 g5 s by simp
qed

end
